(* ===== verification/Prelude.thy ===== *)
theory Prelude
  imports Main "HOL-Library.Multiset" "HOL-Library.List_Lexorder" "HOL-Library.Char_ord"
    "HOL-Library.Option_ord"
begin

text \<open>
  Shared vocabulary of the DigiSoch category development: the orders used by the
  database sort (strings compared byte by byte, \<open>null\<close> before every string), the
  collections of unfolding rules the component theories fill, and generic lemmas on
  lists and options that the component proofs share.
\<close>

section \<open>Rule collections\<close>

named_theorems handler_defs "definitions of the request handlers and their exec combinators"
named_theorems store_defs "definitions of the document-store operations"

section \<open>Generic list lemmas\<close>

text \<open>
  The store keeps its documents in insertion (natural) order. Most store operations are
  a \<open>find\<close>, a \<open>filter\<close> or a \<open>map\<close> over that list, and the invariants are
  \<open>distinct\<close> over a projection of it.
\<close>

lemma find_Some_prop: "find P xs = Some x \<Longrightarrow> x \<in> set xs \<and> P x"
  by (induction xs) (auto split: if_splits)

lemma find_append_None: "find P xs = None \<Longrightarrow> find P (xs @ ys) = find P ys"
  by (induction xs) (auto split: if_splits)

lemma sort_key_Nil_iff: "sort_key f xs = [] \<longleftrightarrow> xs = []"
  by (metis length_0_conv length_sort)

end
