(* ===== verification/Js_Values.thy ===== *)
theory Js_Values
  imports Prelude
begin

text \<open>
  JavaScript values as the program sees them: parsed JSON request and response bodies,
  JavaScript truthiness (the guard \<open>if (!name || !slug)\<close> of the controller and the
  \<open>||\<close> fallbacks of the client), property reads that yield \<open>undefined\<close> or throw,
  the decimal printing of numbers, and the exceptions the program can meet.
  A \<open>JObj\<close> stands for a JavaScript object, so its keys are distinct and
  \<open>map_of\<close> reads them. JSON numbers are modelled by their integer values.
\<close>

section \<open>Values\<close>

datatype json =
    JUndef
  | JNull
  | JBool bool
  | JNum int
  | JStr string
  | JArr "json list"
  | JObj "(string \<times> json) list"

text \<open>\<open>obj.key\<close> on an object value: \<open>undefined\<close> when the key is absent.\<close>

fun js_prop :: "json \<Rightarrow> string \<Rightarrow> json" where
  "js_prop (JObj kvs) k = (case map_of kvs k of None \<Rightarrow> JUndef | Some v \<Rightarrow> v)"
| "js_prop _ k = JUndef"

text \<open>JavaScript's \<open>ToBoolean\<close>: \<open>undefined\<close>, \<open>null\<close>, \<open>false\<close>, \<open>0\<close> and
  \<open>''''\<close> are falsy, every other value (every array and object included) is truthy.\<close>

fun truthy :: "json \<Rightarrow> bool" where
  "truthy JUndef = False"
| "truthy JNull = False"
| "truthy (JBool b) = b"
| "truthy (JNum n) = (n \<noteq> 0)"
| "truthy (JStr s) = (s \<noteq> [])"
| "truthy (JArr _) = True"
| "truthy (JObj _) = True"

text \<open>\<open>a || b\<close>: the first operand when it is truthy, otherwise the second.\<close>

definition js_or :: "json \<Rightarrow> json \<Rightarrow> json" where
  "js_or a b = (if truthy a then a else b)"

section \<open>Exceptions\<close>

text \<open>
  The exceptions raised on the program's paths: the document mapper's cast, validation
  and duplicate-key errors, Express's error for a second response on the same request,
  a property read on \<open>undefined\<close> or \<open>null\<close> (the value and the key read), a call
  of something that is not a function, a query operator the document mapper does not
  accept, and a failed \<open>fetch\<close>.
\<close>

datatype js_error =
    CastError string string
  | ValidationError string
  | DuplicateKeyError string
  | HeadersSentError
  | TypeError string string
  | NotAFunction string
  | QueryOperatorError string
  | NetworkError string

fun error_message :: "js_error \<Rightarrow> string" where
  "error_message (CastError ty v) =
     ''Cast to '' @ ty @ '' failed for value \"'' @ v @ ''\"''"
| "error_message (ValidationError path) =
     ''Category validation failed: '' @ path @ '': Path `'' @ path @ ''` is required.''"
| "error_message (DuplicateKeyError v) =
     ''E11000 duplicate key error index: slug_1 dup key: { slug: \"'' @ v @ ''\" }''"
| "error_message HeadersSentError =
     ''Cannot set headers after they are sent to the client''"
| "error_message (TypeError v k) =
     ''Cannot read properties of '' @ v @ '' (reading '' @ [CHR 0x27] @ k @ [CHR 0x27] @ '')''"
| "error_message (NotAFunction f) = f @ '' is not a function''"
| "error_message (QueryOperatorError k) = ''Can'' @ [CHR 0x27] @ ''t use '' @ k @ '' with String.''"
| "error_message (NetworkError m) = m"

text \<open>\<open>v.key\<close> where \<open>v\<close> may be \<open>undefined\<close> or \<open>null\<close>: a \<open>TypeError\<close>
  then, the property otherwise.\<close>

definition get_prop :: "json \<Rightarrow> string \<Rightarrow> js_error + json" where
  "get_prop v k = (case v of JUndef \<Rightarrow> Inl (TypeError ''undefined'' k) | JNull \<Rightarrow> Inl (TypeError ''null'' k)
                   | _ \<Rightarrow> Inr (js_prop v k))"

section \<open>Printing numbers\<close>

text \<open>\<open>Number.prototype.toString()\<close> on an integer value: its decimal digits, with a
  minus sign for a negative value.\<close>

fun nat_str :: "nat \<Rightarrow> string" where
  "nat_str n = (if n < 10 then [char_of (48 + n)]
                else nat_str (n div 10) @ [char_of (48 + n mod 10)])"

declare nat_str.simps [simp del]

definition int_str :: "int \<Rightarrow> string" where
  "int_str i = (if i < 0 then CHR ''-'' # nat_str (nat (- i)) else nat_str (nat i))"

section \<open>Facts\<close>

lemma js_or_truthy [simp]: "truthy a \<Longrightarrow> js_or a b = a"
  by (simp add: js_or_def)

lemma js_or_falsy [simp]: "\<not> truthy a \<Longrightarrow> js_or a b = b"
  by (simp add: js_or_def)

lemma get_prop_cases:
  "get_prop v k = (if v = JUndef then Inl (TypeError ''undefined'' k) else if v = JNull then Inl (TypeError ''null'' k)
                   else Inr (js_prop v k))"
  by (cases v) (simp_all add: get_prop_def)

lemma nat_str_nonempty: "nat_str n \<noteq> []"
  by (subst nat_str.simps) simp

end
