(* ===== verification/Express.thy ===== *)
theory Express
  imports Js_Values
begin

text \<open>
  The Express request/response layer the controller runs in. A response object can be
  written once (\<open>res.status(c).json(b)\<close>); a second write throws
  \<open>ERR_HTTP_HEADERS_SENT\<close>. \<open>next(err)\<close> hands an error built by
  \<open>handleError\<close> to the application's error middleware, which answers with the
  error's status and message; when a response was already written, the middleware's own
  write fails and Express only logs it. An async handler is a computation
  \<open>('s, 'a) exec\<close> over the store \<open>'s\<close> and the response, which either returns or
  throws; \<open>try_catch\<close> is the handler's \<open>try { } catch { }\<close>, and a rejection that
  escapes the handler is logged (Express 4 does not catch it).
  \<open>handleError\<close> (api/helpers/handleError.js) and the error middleware (api/index.js)
  are not among the sources: they are modelled from the specification, section 4.3.
\<close>

section \<open>Response object\<close>

record http_res =
  res_sent :: "(nat \<times> json) option"
  res_log :: "js_error list"

definition res0 :: http_res where
  "res0 = \<lparr>res_sent = None, res_log = []\<rparr>"

definition res_json :: "nat \<Rightarrow> json \<Rightarrow> http_res \<Rightarrow> js_error + http_res" where
  "res_json code body r =
     (if res_sent r = None then Inr (r\<lparr>res_sent := Some (code, body)\<rparr>)
      else Inl HeadersSentError)"

section \<open>Errors handed to next\<close>

record http_error =
  err_status :: nat
  err_msg :: string

definition handleError :: "nat \<Rightarrow> string \<Rightarrow> http_error" where
  "handleError code msg = \<lparr>err_status = code, err_msg = msg\<rparr>"

definition error_body :: "http_error \<Rightarrow> json" where
  "error_body e =
     JObj [(''success'', JBool False),
           (''statusCode'', JNum (int (if err_status e = 0 then 500 else err_status e))),
           (''message'', JStr (if err_msg e = [] then ''Internal server error.'' else err_msg e))]"

definition express_next :: "http_error \<Rightarrow> http_res \<Rightarrow> http_res" where
  "express_next e r =
     (case res_json (if err_status e = 0 then 500 else err_status e) (error_body e) r of
        Inr r' \<Rightarrow> r'
      | Inl x \<Rightarrow> r\<lparr>res_log := res_log r @ [x]\<rparr>)"

section \<open>Handler computations\<close>

type_synonym ('s, 'a) exec = "'s \<times> http_res \<Rightarrow> (js_error + 'a) \<times> 's \<times> http_res"

definition ret :: "'a \<Rightarrow> ('s, 'a) exec" where
  "ret a = (\<lambda>(s, r). (Inr a, s, r))"

definition throw :: "js_error \<Rightarrow> ('s, 'a) exec" where
  "throw e = (\<lambda>(s, r). (Inl e, s, r))"

definition bind_e :: "('s, 'a) exec \<Rightarrow> ('a \<Rightarrow> ('s, 'b) exec) \<Rightarrow> ('s, 'b) exec" where
  "bind_e m f = (\<lambda>sr. case m sr of (Inl e, sr') \<Rightarrow> (Inl e, sr') | (Inr a, sr') \<Rightarrow> f a sr')"

definition try_catch :: "('s, 'a) exec \<Rightarrow> (js_error \<Rightarrow> ('s, 'a) exec) \<Rightarrow> ('s, 'a) exec" where
  "try_catch m h = (\<lambda>sr. case m sr of (Inl e, sr') \<Rightarrow> h e sr' | ok \<Rightarrow> ok)"

text \<open>\<open>res.status(code).json(body)\<close>, \<open>next(err)\<close> and a store
  operation, which either throws or returns a value and the new store.\<close>

definition send :: "nat \<Rightarrow> json \<Rightarrow> ('s, unit) exec" where
  "send code body = (\<lambda>(s, r). case res_json code body r of
                        Inl e \<Rightarrow> (Inl e, s, r) | Inr r' \<Rightarrow> (Inr (), s, r'))"

definition call_next :: "http_error \<Rightarrow> ('s, unit) exec" where
  "call_next e = (\<lambda>(s, r). (Inr (), s, express_next e r))"

definition db_call :: "('s \<Rightarrow> js_error + ('a \<times> 's)) \<Rightarrow> ('s, 'a) exec" where
  "db_call op = (\<lambda>(s, r). case op s of Inl e \<Rightarrow> (Inl e, s, r) | Inr (a, s') \<Rightarrow> (Inr a, s', r))"

definition run_handler :: "('s, unit) exec \<Rightarrow> 's \<Rightarrow> 's \<times> http_res" where
  "run_handler h s =
     (case h (s, res0) of
        (Inl e, s', r) \<Rightarrow> (s', r\<lparr>res_log := res_log r @ [e]\<rparr>)
      | (Inr _, s', r) \<Rightarrow> (s', r))"

declare ret_def [handler_defs] throw_def [handler_defs] bind_e_def [handler_defs]
  try_catch_def [handler_defs] send_def [handler_defs] call_next_def [handler_defs]
  db_call_def [handler_defs] run_handler_def [handler_defs]

section \<open>Facts\<close>

text \<open>The first write to a fresh response is the one the client sees; any later write,
  direct or through the error middleware, leaves it unchanged.\<close>

lemma res_json_fresh: "res_sent r = None \<Longrightarrow> res_json c b r = Inr (r\<lparr>res_sent := Some (c, b)\<rparr>)"
  by (simp add: res_json_def)

lemma res_json_sent: "res_sent r \<noteq> None \<Longrightarrow> res_json c b r = Inl HeadersSentError"
  by (simp add: res_json_def)

lemma express_next_sent:
  "res_sent r \<noteq> None \<Longrightarrow> express_next e r = r\<lparr>res_log := res_log r @ [HeadersSentError]\<rparr>"
  by (simp add: express_next_def res_json_def)

lemma express_next_keeps_sent:
  "res_sent r \<noteq> None \<Longrightarrow> res_sent (express_next e r) = res_sent r"
  by (simp add: express_next_sent)

lemma bind_e_ret [simp]: "bind_e (ret a) f = f a"
  by (simp add: bind_e_def ret_def)

lemma bind_e_throw [simp]: "bind_e (throw e) f = throw e"
  by (rule ext) (simp add: bind_e_def throw_def split: prod.splits)

lemma try_catch_throw [simp]: "try_catch (throw e) h = h e"
  by (rule ext) (simp add: try_catch_def throw_def split: prod.splits)

lemma try_catch_ret [simp]: "try_catch (ret a) h = ret a"
  by (rule ext) (simp add: try_catch_def ret_def split: prod.splits)

end
