(* ===== verification/Category_Store.thy ===== *)
theory Category_Store
  imports Express
begin

text \<open>
  The category collection as the controller reaches it through the mongoose model
  \<open>Category\<close> (api/models/category.model.js, not among the sources, so modelled from the
  specification: fields \<open>name\<close> and \<open>slug\<close>, both required strings, and an optional
  unique index on \<open>slug\<close>). The store keeps the documents in insertion (natural) order,
  the counter from which fresh ObjectIds are drawn, and whether the collection carries a
  unique index on \<open>slug\<close>. A field holds \<open>None\<close> for \<open>null\<close>.
  ObjectIds are numbers below \<open>16^24\<close>, printed as 24 lower-case hex digits; a path
  parameter is cast back by parsing 24 hex digits of either case, and anything else is a
  \<open>CastError\<close>. String paths cast numbers and booleans to their printed form and
  reject arrays and objects. Query operators inside body fields and the mapper's
  \<open>_id\<close>/\<open>toString\<close> special cases are outside the model.
\<close>

section \<open>Documents and the collection\<close>

type_synonym oid = nat

record category =
  cat_id :: oid
  cat_name :: "string option"
  cat_slug :: "string option"

record store =
  cats :: "category list"
  next_oid :: oid
  slug_index :: bool

section \<open>ObjectIds\<close>

definition hex_char :: "nat \<Rightarrow> char" where
  "hex_char d = (if d < 10 then char_of (48 + d) else char_of (87 + d))"

fun hex_digits :: "nat \<Rightarrow> nat \<Rightarrow> string" where
  "hex_digits 0 n = []"
| "hex_digits (Suc k) n = hex_digits k (n div 16) @ [hex_char (n mod 16)]"

definition oid_hex :: "oid \<Rightarrow> string" where
  "oid_hex n = hex_digits 24 n"

definition hex_val :: "char \<Rightarrow> nat option" where
  "hex_val c =
     (let k = (of_char c :: nat) in
      if 48 \<le> k \<and> k \<le> 57 then Some (k - 48)
      else if 97 \<le> k \<and> k \<le> 102 then Some (k - 87)
      else if 65 \<le> k \<and> k \<le> 70 then Some (k - 55)
      else None)"

fun parse_hex :: "nat \<Rightarrow> string \<Rightarrow> nat option" where
  "parse_hex acc [] = Some acc"
| "parse_hex acc (c # cs) = (case hex_val c of None \<Rightarrow> None | Some d \<Rightarrow> parse_hex (16 * acc + d) cs)"

definition cast_oid :: "string \<Rightarrow> js_error + oid" where
  "cast_oid s =
     (if length s = 24 then (case parse_hex 0 s of Some n \<Rightarrow> Inr n | None \<Rightarrow> Inl (CastError ''ObjectId'' s))
      else Inl (CastError ''ObjectId'' s))"

section \<open>Casting to String paths\<close>

fun cast_str :: "json \<Rightarrow> js_error + string option" where
  "cast_str JUndef = Inr None"
| "cast_str JNull = Inr None"
| "cast_str (JBool b) = Inr (Some (if b then ''true'' else ''false''))"
| "cast_str (JNum n) = Inr (Some (int_str n))"
| "cast_str (JStr s) = Inr (Some s)"
| "cast_str (JArr vs) = Inl (CastError ''string'' ''[array]'')"
| "cast_str (JObj kvs) = Inl (CastError ''string'' ''[object Object]'')"

section \<open>Casting query values on String paths\<close>

text \<open>In a filter, the value given for a String path is cast differently from a document
  value: an array is a \<open>$in\<close> over its cast elements, and an object with a key starting
  with \<open>$\<close> is a set of query operators, each cast and all of which must hold; an
  operator that is not a handler of the String type throws "Can't use ... with String.".
  The model covers the comparison operators \<open>$eq $ne $in $nin $exists $gt $gte $lt
  $lte\<close>; the pattern and type operators \<open>$regex $options $type $all $not\<close>, which
  mongoose also accepts on strings, are outside the model and are treated like unknown
  operators. A missing slug and a \<open>null\<close> slug are not told apart.\<close>

fun cast_all :: "json list \<Rightarrow> js_error + string option list" where
  "cast_all [] = Inr []"
| "cast_all (v # vs) =
     (case cast_str v of
        Inl e \<Rightarrow> Inl e
      | Inr s \<Rightarrow> (case cast_all vs of Inl e \<Rightarrow> Inl e | Inr ss \<Rightarrow> Inr (s # ss)))"

definition cast_in_list :: "json \<Rightarrow> js_error + string option list" where
  "cast_in_list v = (case v of JArr vs \<Rightarrow> cast_all vs | _ \<Rightarrow> cast_all [v])"

definition cond_pred :: "string \<Rightarrow> json \<Rightarrow> js_error + (string option \<Rightarrow> bool)" where
  "cond_pred k v =
     (if k = ''$eq'' \<or> k = ''$ne'' then
        (case cast_str v of
           Inl e \<Rightarrow> Inl e
         | Inr s \<Rightarrow> Inr (if k = ''$eq'' then (\<lambda>x. x = s) else (\<lambda>x. x \<noteq> s)))
      else if k = ''$in'' \<or> k = ''$nin'' then
        (case cast_in_list v of
           Inl e \<Rightarrow> Inl e
         | Inr ss \<Rightarrow> Inr (if k = ''$in'' then (\<lambda>x. x \<in> set ss) else (\<lambda>x. x \<notin> set ss)))
      else if k = ''$exists'' then
        (case v of JBool b \<Rightarrow> Inr (\<lambda>x. (x \<noteq> None) = b) | _ \<Rightarrow> Inl (CastError ''Boolean'' ''$exists''))
      else if k \<in> set [''$gt'', ''$gte'', ''$lt'', ''$lte''] then
        (case cast_str v of
           Inr (Some s) \<Rightarrow>
             Inr (\<lambda>x. case x of
                         None \<Rightarrow> False
                       | Some t \<Rightarrow> (if k = ''$gt'' then s < t else if k = ''$gte'' then s \<le> t
                                   else if k = ''$lt'' then t < s else t \<le> s))
         | Inr None \<Rightarrow> Inr (\<lambda>x. False)
         | Inl e \<Rightarrow> Inl e)
      else Inl (QueryOperatorError k))"

fun cond_all :: "(string \<times> json) list \<Rightarrow> js_error + (string option \<Rightarrow> bool)" where
  "cond_all [] = Inr (\<lambda>x. True)"
| "cond_all ((k, v) # kvs) =
     (case cond_pred k v of
        Inl e \<Rightarrow> Inl e
      | Inr P \<Rightarrow> (case cond_all kvs of Inl e \<Rightarrow> Inl e | Inr Q \<Rightarrow> Inr (\<lambda>x. P x \<and> Q x)))"

definition has_dollar_key :: "(string \<times> json) list \<Rightarrow> bool" where
  "has_dollar_key kvs \<longleftrightarrow> list_ex (\<lambda>kv. take 1 (fst kv) = ''$'') kvs"

fun cast_query :: "json \<Rightarrow> js_error + (string option \<Rightarrow> bool)" where
  "cast_query (JArr vs) = (case cast_all vs of Inl e \<Rightarrow> Inl e | Inr ss \<Rightarrow> Inr (\<lambda>x. x \<in> set ss))"
| "cast_query (JObj kvs) =
     (if has_dollar_key kvs then cond_all kvs else Inl (CastError ''string'' ''[object Object]''))"
| "cast_query v = (case cast_str v of Inl e \<Rightarrow> Inl e | Inr s \<Rightarrow> Inr (\<lambda>x. x = s))"

section \<open>Operations\<close>

text \<open>\<open>Category.findOne({ slug })\<close>: the first document, in natural order, whose slug
  satisfies the cast filter.\<close>

definition find_one_slug :: "json \<Rightarrow> store \<Rightarrow> js_error + (category option \<times> store)" where
  "find_one_slug v st =
     (case cast_query v of
        Inl e \<Rightarrow> Inl e
      | Inr P \<Rightarrow> Inr (find (\<lambda>c. P (cat_slug c)) (cats st), st))"

text \<open>\<open>new Category({ name, slug })\<close> draws the document's ObjectId; \<open>save()\<close>
  casts and validates the fields (a failed cast or a missing or empty required string is
  a validation error), enforces the unique index when there is one, and appends.\<close>

definition new_category :: "json \<Rightarrow> json \<Rightarrow> store \<Rightarrow> js_error + ((oid \<times> json \<times> json) \<times> store)" where
  "new_category name slug st = Inr ((next_oid st, name, slug), st\<lparr>next_oid := Suc (next_oid st)\<rparr>)"

definition required_str :: "string \<Rightarrow> json \<Rightarrow> js_error + string" where
  "required_str path v =
     (case cast_str v of
        Inr (Some s) \<Rightarrow> (if s = [] then Inl (ValidationError path) else Inr s)
      | _ \<Rightarrow> Inl (ValidationError path))"

definition save_category :: "oid \<times> json \<times> json \<Rightarrow> store \<Rightarrow> js_error + (category \<times> store)" where
  "save_category d st =
     (case d of (i, name, slug) \<Rightarrow>
       (case required_str ''name'' name of
          Inl e \<Rightarrow> Inl e
        | Inr n \<Rightarrow>
          (case required_str ''slug'' slug of
             Inl e \<Rightarrow> Inl e
           | Inr s \<Rightarrow>
             (if slug_index st \<and> (\<exists>c \<in> set (cats st). cat_slug c = Some s)
              then Inl (DuplicateKeyError s)
              else (let c = \<lparr>cat_id = i, cat_name = Some n, cat_slug = Some s\<rparr>
                    in Inr (c, st\<lparr>cats := cats st @ [c]\<rparr>))))))"

text \<open>\<open>Category.findById(id)\<close>.\<close>

definition find_by_id :: "string \<Rightarrow> store \<Rightarrow> js_error + (category option \<times> store)" where
  "find_by_id sid st =
     (case cast_oid sid of
        Inl e \<Rightarrow> Inl e
      | Inr i \<Rightarrow> Inr (find (\<lambda>c. cat_id c = i) (cats st), st))"

text \<open>\<open>Category.findByIdAndUpdate(id, { name, slug }, { new: true })\<close>: keys whose
  value is \<open>undefined\<close> are dropped from the update, the others are cast and set
  without running the validators; the unique index still applies. The result is the
  updated document, or \<open>null\<close> when no document has the id.\<close>

definition cast_update :: "json \<Rightarrow> js_error + string option option" where
  "cast_update v = (if v = JUndef then Inr None else (case cast_str v of Inl e \<Rightarrow> Inl e | Inr s \<Rightarrow> Inr (Some s)))"

definition set_fields :: "string option option \<Rightarrow> string option option \<Rightarrow> category \<Rightarrow> category" where
  "set_fields n s c =
     c\<lparr>cat_name := (case n of None \<Rightarrow> cat_name c | Some x \<Rightarrow> x),
       cat_slug := (case s of None \<Rightarrow> cat_slug c | Some x \<Rightarrow> x)\<rparr>"

definition update_by_id :: "string \<Rightarrow> json \<Rightarrow> json \<Rightarrow> store \<Rightarrow> js_error + (category option \<times> store)" where
  "update_by_id sid name slug st =
     (case cast_oid sid of
        Inl e \<Rightarrow> Inl e
      | Inr i \<Rightarrow>
        (case cast_update name of
           Inl e \<Rightarrow> Inl e
         | Inr n \<Rightarrow>
           (case cast_update slug of
              Inl e \<Rightarrow> Inl e
            | Inr s \<Rightarrow>
              (case find (\<lambda>c. cat_id c = i) (cats st) of
                 None \<Rightarrow> Inr (None, st)
               | Some c \<Rightarrow>
                 (let c' = set_fields n s c in
                  if slug_index st \<and> (\<exists>d \<in> set (cats st). cat_id d \<noteq> i \<and> cat_slug d = cat_slug c')
                  then Inl (DuplicateKeyError (case cat_slug c' of None \<Rightarrow> ''null'' | Some x \<Rightarrow> x))
                  else Inr (Some c', st\<lparr>cats := map (\<lambda>d. if cat_id d = i then c' else d) (cats st)\<rparr>))))))"

text \<open>\<open>Category.findByIdAndDelete(id)\<close>.\<close>

definition delete_by_id :: "string \<Rightarrow> store \<Rightarrow> js_error + (category option \<times> store)" where
  "delete_by_id sid st =
     (case cast_oid sid of
        Inl e \<Rightarrow> Inl e
      | Inr i \<Rightarrow> Inr (find (\<lambda>c. cat_id c = i) (cats st),
                     st\<lparr>cats := filter (\<lambda>c. cat_id c \<noteq> i) (cats st)\<rparr>))"

text \<open>\<open>Category.find().sort({ name: 1 })\<close>: every document, ascending by name, \<open>null\<close>
  first and strings compared byte by byte; documents with equal names keep their
  natural order.\<close>

definition find_all_sorted :: "store \<Rightarrow> js_error + (category list \<times> store)" where
  "find_all_sorted st = Inr (sort_key cat_name (cats st), st)"

section \<open>Invariant and abstract view\<close>

text \<open>Every document has its own ObjectId, drawn below the counter. The abstract view of
  the collection is the map from ObjectIds to the (name, slug) pair of their document.\<close>

definition store_wf :: "store \<Rightarrow> bool" where
  "store_wf st \<longleftrightarrow> distinct (map cat_id (cats st)) \<and> (\<forall>c \<in> set (cats st). cat_id c < next_oid st)"

definition slugs_distinct :: "store \<Rightarrow> bool" where
  "slugs_distinct st \<longleftrightarrow> distinct (map cat_slug (cats st))"

definition cat_entry :: "category \<Rightarrow> oid \<times> (string option \<times> string option)" where
  "cat_entry c = (cat_id c, (cat_name c, cat_slug c))"

definition cat_map :: "store \<Rightarrow> oid \<rightharpoonup> string option \<times> string option" where
  "cat_map st = map_of (map cat_entry (cats st))"

declare find_one_slug_def [store_defs] new_category_def [store_defs] save_category_def [store_defs]
  find_by_id_def [store_defs] update_by_id_def [store_defs] delete_by_id_def [store_defs]
  find_all_sorted_def [store_defs]

section \<open>ObjectId round trip\<close>

lemma parse_hex_append:
  "parse_hex acc (xs @ ys) = (case parse_hex acc xs of None \<Rightarrow> None | Some a \<Rightarrow> parse_hex a ys)"
  by (induction acc xs rule: parse_hex.induct) (auto split: option.splits)

lemma hex_val_hex_char: "d < 16 \<Longrightarrow> hex_val (hex_char d) = Some d"
  by (auto simp: hex_val_def hex_char_def Let_def)

lemma length_hex_digits [simp]: "length (hex_digits k n) = k"
  by (induction k arbitrary: n) auto

lemma parse_hex_digits: "parse_hex acc (hex_digits k n) = Some (acc * 16 ^ k + n mod 16 ^ k)"
proof (induction k arbitrary: acc n)
  case 0
  then show ?case by simp
next
  case (Suc k)
  have "n mod 16 ^ Suc k = 16 * (n div 16 mod 16 ^ k) + n mod 16"
    by (simp add: mod_mult2_eq mult.commute)
  then show ?case
    by (simp add: parse_hex_append Suc.IH hex_val_hex_char algebra_simps)
qed

text \<open>An ObjectId printed as 24 hex digits and cast back by the mapper is the same id.\<close>

lemma cast_oid_oid_hex: "n < 16 ^ 24 \<Longrightarrow> cast_oid (oid_hex n) = Inr n"
  by (simp add: cast_oid_def oid_hex_def parse_hex_digits)

lemma cast_oid_oid_hex_255: "cast_oid (oid_hex 255) = Inr 255"
  by (rule cast_oid_oid_hex) simp

section \<open>Operations: results and the invariant\<close>

lemma new_category_Inr [simp]:
  "new_category n s st = Inr (d, st') \<longleftrightarrow>
     d = (next_oid st, n, s) \<and> st' = st\<lparr>next_oid := Suc (next_oid st)\<rparr>"
  by (auto simp: new_category_def)

lemma save_category_Inr:
  "save_category (i, n, s) st = Inr (c, st') \<longleftrightarrow>
     (\<exists>x y. required_str ''name'' n = Inr x \<and> required_str ''slug'' s = Inr y
        \<and> \<not> (slug_index st \<and> (\<exists>d \<in> set (cats st). cat_slug d = Some y))
        \<and> c = \<lparr>cat_id = i, cat_name = Some x, cat_slug = Some y\<rparr> \<and> st' = st\<lparr>cats := cats st @ [c]\<rparr>)"
  by (auto simp: save_category_def Let_def split: sum.splits if_splits)

lemma cat_id_set_fields [simp]: "cat_id (set_fields n s c) = cat_id c"
  by (simp add: set_fields_def)

lemma update_by_id_Inr:
  "update_by_id sid name slug st = Inr (r, st') \<longleftrightarrow>
     (\<exists>i n s. cast_oid sid = Inr i \<and> cast_update name = Inr n \<and> cast_update slug = Inr s \<and>
        (case find (\<lambda>c. cat_id c = i) (cats st) of
           None \<Rightarrow> r = None \<and> st' = st
         | Some c \<Rightarrow>
             \<not> (slug_index st \<and> (\<exists>d \<in> set (cats st). cat_id d \<noteq> i \<and> cat_slug d = cat_slug (set_fields n s c)))
             \<and> r = Some (set_fields n s c)
             \<and> st' = st\<lparr>cats := map (\<lambda>d. if cat_id d = i then set_fields n s c else d) (cats st)\<rparr>))"
  by (auto simp: update_by_id_def Let_def split: sum.splits option.splits if_splits)

lemma update_by_id_Some:
  assumes "update_by_id sid name slug st = Inr (Some c', st')"
  obtains i c where "cast_oid sid = Inr i" "find (\<lambda>c. cat_id c = i) (cats st) = Some c"
    "cat_id c' = i" "st' = st\<lparr>cats := map (\<lambda>d. if cat_id d = i then c' else d) (cats st)\<rparr>"
proof -
  from assms obtain i n s c where i: "cast_oid sid = Inr i" and c: "find (\<lambda>c. cat_id c = i) (cats st) = Some c"
    and c': "c' = set_fields n s c"
    and st': "st' = st\<lparr>cats := map (\<lambda>d. if cat_id d = i then c' else d) (cats st)\<rparr>"
    by (auto simp: update_by_id_def Let_def split: sum.splits option.splits if_splits)
  from c have "cat_id c = i"
    by (auto dest: find_Some_prop)
  with i c c' st' that show thesis
    by simp
qed

lemma delete_by_id_wf:
  "delete_by_id sid st = Inr (r, st') \<Longrightarrow> store_wf st \<Longrightarrow> store_wf st'"
  by (auto simp: delete_by_id_def store_wf_def distinct_map_filter split: sum.splits)

section \<open>Refinement of the abstract map\<close>

lemma find_id_distinct:
  "distinct (map cat_id xs) \<Longrightarrow> c \<in> set xs \<Longrightarrow> find (\<lambda>d. cat_id d = cat_id c) xs = Some c"
  by (induction xs) (auto simp: image_iff)

lemma map_of_find_id:
  "map_of (map cat_entry xs) i = map_option (\<lambda>c. (cat_name c, cat_slug c)) (find (\<lambda>c. cat_id c = i) xs)"
  by (induction xs) (auto simp: cat_entry_def)

lemma map_of_append_fresh:
  "cat_id c \<notin> cat_id ` set xs \<Longrightarrow>
   map_of (map cat_entry (xs @ [c])) = (map_of (map cat_entry xs))(cat_id c \<mapsto> (cat_name c, cat_slug c))"
  by (induction xs) (auto simp: cat_entry_def fun_upd_twist)

lemma map_of_filter_id:
  "map_of (map cat_entry (filter (\<lambda>c. cat_id c \<noteq> i) xs)) = (map_of (map cat_entry xs))(i := None)"
  by (induction xs) (auto simp: cat_entry_def fun_upd_twist)

lemma map_of_replace_id_at:
  "cat_id c' = i \<Longrightarrow>
   map_of (map cat_entry (map (\<lambda>d. if cat_id d = i then c' else d) xs)) j =
   (if j = i then (if i \<in> cat_id ` set xs then Some (cat_name c', cat_slug c') else None)
    else map_of (map cat_entry xs) j)"
  by (induction xs) (auto simp: cat_entry_def)

lemma map_of_replace_id:
  "cat_id c' = i \<Longrightarrow> i \<in> cat_id ` set xs \<Longrightarrow>
   map_of (map cat_entry (map (\<lambda>d. if cat_id d = i then c' else d) xs)) =
   (map_of (map cat_entry xs))(i \<mapsto> (cat_name c', cat_slug c'))"
  by (rule ext) (subst map_of_replace_id_at; simp)

lemma cat_map_find: "cat_map st i = map_option (\<lambda>c. (cat_name c, cat_slug c)) (find (\<lambda>c. cat_id c = i) (cats st))"
  by (simp add: cat_map_def map_of_find_id)

lemma save_category_cat_map:
  assumes "save_category (i, n, s) st = Inr (c, st')" "i \<notin> cat_id ` set (cats st)"
  shows "cat_map st' = (cat_map st)(i \<mapsto> (cat_name c, cat_slug c))"
proof -
  from assms(1) have "cats st' = cats st @ [c]" "cat_id c = i"
    by (auto simp: save_category_Inr)
  with assms(2) show ?thesis
    unfolding cat_map_def by (metis map_of_append_fresh)
qed

lemma delete_by_id_cat_map:
  "cast_oid sid = Inr i \<Longrightarrow> delete_by_id sid st = Inr (r, st') \<Longrightarrow> cat_map st' = (cat_map st)(i := None)"
  by (auto simp: delete_by_id_def cat_map_def map_of_filter_id)

lemma update_by_id_cat_map:
  assumes "update_by_id sid name slug st = Inr (Some c', st')"
  shows "cat_map st' = (cat_map st)(cat_id c' \<mapsto> (cat_name c', cat_slug c'))"
proof -
  from assms obtain i c where f: "find (\<lambda>c. cat_id c = i) (cats st) = Some c" and "cat_id c' = i"
    and st': "st' = st\<lparr>cats := map (\<lambda>d. if cat_id d = i then c' else d) (cats st)\<rparr>"
    by (rule update_by_id_Some)
  moreover from find_Some_prop [OF f] have "i \<in> cat_id ` set (cats st)"
    by (metis image_eqI)
  ultimately show ?thesis
    unfolding cat_map_def st' by (simp add: map_of_replace_id del: map_map)
qed

lemma cast_query_scalar: "cast_str v = Inr s \<Longrightarrow> cast_query v = Inr (\<lambda>x. x = s)"
  by (cases v) simp_all

section \<open>Slugs\<close>

lemma required_str_Inr: "required_str p v = Inr y \<Longrightarrow> cast_str v = Inr (Some y) \<and> y \<noteq> []"
  by (auto simp: required_str_def split: sum.splits option.splits if_splits)

lemma slugs_distinct_other:
  "slugs_distinct st \<Longrightarrow> c \<in> set (cats st) \<Longrightarrow> d \<in> set (cats st) \<Longrightarrow> cat_slug d = cat_slug c \<Longrightarrow> d = c"
  by (auto simp: slugs_distinct_def distinct_map dest: inj_onD)

end
