(* ===== verification/Category_Controller.thy ===== *)
theory Category_Controller
  imports Category_Store
begin

text \<open>
  The five request handlers of api/controllers/Category.controller.js, one definition
  each, written in the handler combinators of \<open>Express\<close>: every \<open>await\<close> of the
  source is a \<open>db_call\<close> of the store operation it awaits, every
  \<open>res.status(c).json(b)\<close> a \<open>send\<close>, every \<open>next(handleError(c, m))\<close> a
  \<open>call_next\<close>, and the \<open>try { } catch (error) { }\<close> of each handler a
  \<open>try_catch\<close>. A request is served by \<open>serve\<close>, which runs a handler on the store
  with a fresh response object. Response bodies are the JSON objects the handlers build;
  a document is serialised with its \<open>_id\<close> as 24 hex digits and mongoose's
  version key \<open>__v\<close>, which stays 0 since no handler updates an array.
\<close>

section \<open>Response bodies\<close>

definition msg_json :: "string \<Rightarrow> json" where
  "msg_json m = JObj [(''message'', JStr m)]"

definition opt_json :: "string option \<Rightarrow> json" where
  "opt_json v = (case v of None \<Rightarrow> JNull | Some s \<Rightarrow> JStr s)"

definition category_json :: "category \<Rightarrow> json" where
  "category_json c =
     JObj [(''_id'', JStr (oid_hex (cat_id c))), (''name'', opt_json (cat_name c)),
           (''slug'', opt_json (cat_slug c)), (''__v'', JNum 0)]"

definition category_or_null :: "category option \<Rightarrow> json" where
  "category_or_null r = (case r of None \<Rightarrow> JNull | Some c \<Rightarrow> category_json c)"

section \<open>Handlers\<close>

text \<open>\<open>addCategory\<close> (lines 3--23): the presence check on the body, the slug lookup,
  the new document and its save; every exception is answered with 500 and the raw
  message.\<close>

definition addCategory :: "json \<Rightarrow> (store, unit) exec" where
  "addCategory body =
     try_catch
       (let name = js_prop body ''name''; slug = js_prop body ''slug'' in
        if \<not> truthy name \<or> \<not> truthy slug
        then send 400 (msg_json ''Name and slug are required.'')
        else
          bind_e (db_call (find_one_slug slug)) (\<lambda>existingCategory.
          if existingCategory \<noteq> None
          then send 409 (msg_json ''Category slug already exists.'')
          else
            bind_e (db_call (new_category name slug)) (\<lambda>doc.
            bind_e (db_call (save_category doc)) (\<lambda>category.
            send 201 (JObj [(''message'', JStr ''Category added successfully.''),
                            (''category'', category_json category)])))))
       (\<lambda>error. send 500 (JObj [(''message'', JStr ''Internal server error.''),
                                 (''error'', JStr (error_message error))]))"

text \<open>\<open>showCategory\<close> (lines 24--37). When no document has the id the handler calls
  \<open>next\<close> with a 404 error and does not return, so it goes on to answer 200 as well.\<close>

definition showCategory :: "string \<Rightarrow> (store, unit) exec" where
  "showCategory categoryid =
     try_catch
       (bind_e (db_call (find_by_id categoryid)) (\<lambda>category.
        bind_e (if category = None then call_next (handleError 404 ''Data not found.'') else ret ())
          (\<lambda>_. send 200 (JObj [(''category'', category_or_null category)]))))
       (\<lambda>error. call_next (handleError 500 (error_message error)))"

text \<open>\<open>updateCategory\<close> (lines 38--54): the update is sent as is, whatever the body
  holds, and the answer is 200 whether or not a document had the id.\<close>

definition updateCategory :: "string \<Rightarrow> json \<Rightarrow> (store, unit) exec" where
  "updateCategory categoryid body =
     try_catch
       (let name = js_prop body ''name''; slug = js_prop body ''slug'' in
        bind_e (db_call (update_by_id categoryid name slug)) (\<lambda>category.
        send 200 (JObj [(''success'', JBool True), (''message'', JStr ''Category updated successfully.''),
                        (''category'', category_or_null category)])))
       (\<lambda>error. call_next (handleError 500 (error_message error)))"

text \<open>\<open>deleteCategory\<close> (lines 55--66).\<close>

definition deleteCategory :: "string \<Rightarrow> (store, unit) exec" where
  "deleteCategory categoryid =
     try_catch
       (bind_e (db_call (delete_by_id categoryid)) (\<lambda>_.
        send 200 (JObj [(''success'', JBool True), (''message'', JStr ''Category Deleted successfully.'')])))
       (\<lambda>error. call_next (handleError 500 (error_message error)))"

text \<open>\<open>getAllCategory\<close> (lines 67--76).\<close>

definition getAllCategory :: "(store, unit) exec" where
  "getAllCategory =
     try_catch
       (bind_e (db_call find_all_sorted) (\<lambda>category.
        send 200 (JObj [(''category'', JArr (map category_json category))])))
       (\<lambda>error. call_next (handleError 500 (error_message error)))"

definition serve :: "(store, unit) exec \<Rightarrow> store \<Rightarrow> store \<times> http_res" where
  "serve h st = run_handler h st"

section \<open>Operations and reachable stores\<close>

text \<open>The five operations the router reaches (api/routes/Category.route.js), with the path
  parameter and the body they pass, and the handler each one runs.\<close>

datatype cat_op =
    AddCategory json
  | ShowCategory string
  | UpdateCategory string json
  | DeleteCategory string
  | GetAllCategory

fun handler :: "cat_op \<Rightarrow> (store, unit) exec" where
  "handler (AddCategory body) = addCategory body"
| "handler (ShowCategory sid) = showCategory sid"
| "handler (UpdateCategory sid body) = updateCategory sid body"
| "handler (DeleteCategory sid) = deleteCategory sid"
| "handler GetAllCategory = getAllCategory"

definition empty_store :: "bool \<Rightarrow> store" where
  "empty_store idx = \<lparr>cats = [], next_oid = 1, slug_index = idx\<rparr>"

text \<open>The stores reachable from an empty collection by serving requests one after the
  other.\<close>

inductive reachable :: "store \<Rightarrow> bool" where
  reach_empty: "reachable (empty_store idx)"
| reach_serve: "reachable st \<Longrightarrow> reachable (fst (serve (handler op) st))"

text \<open>The stores reachable by serving only operations that pass a filter.\<close>

inductive reachable_by :: "(cat_op \<Rightarrow> bool) \<Rightarrow> store \<Rightarrow> bool" for ok :: "cat_op \<Rightarrow> bool" where
  reach_by_empty: "reachable_by ok (empty_store idx)"
| reach_by_serve: "reachable_by ok st \<Longrightarrow> ok op \<Longrightarrow> reachable_by ok (fst (serve (handler op) st))"

fun is_update :: "cat_op \<Rightarrow> bool" where
  "is_update (UpdateCategory sid b) = True"
| "is_update _ = False"

abbreviation responded :: "nat \<Rightarrow> json \<Rightarrow> http_res" where
  "responded c b \<equiv> res0\<lparr>res_sent := Some (c, b)\<rparr>"

definition internal_error :: "js_error \<Rightarrow> json" where
  "internal_error e = JObj [(''message'', JStr ''Internal server error.''), (''error'', JStr (error_message e))]"

definition next_error :: "nat \<Rightarrow> string \<Rightarrow> json" where
  "next_error c m = error_body (handleError c m)"

section \<open>Behaviour of each handler\<close>

text \<open>Each handler on a fresh response, branch by branch: the store it leaves and the
  response it writes.\<close>

lemma serve_addCategory:
  "serve (addCategory body) st =
     (let name = js_prop body ''name''; slug = js_prop body ''slug'' in
      if \<not> truthy name \<or> \<not> truthy slug then (st, responded 400 (msg_json ''Name and slug are required.''))
      else case cast_query slug of
        Inl e \<Rightarrow> (st, responded 500 (internal_error e))
      | Inr P \<Rightarrow>
        if find (\<lambda>c. P (cat_slug c)) (cats st) \<noteq> None
        then (st, responded 409 (msg_json ''Category slug already exists.''))
        else
          (case save_category (next_oid st, name, slug) (st\<lparr>next_oid := Suc (next_oid st)\<rparr>) of
             Inl e \<Rightarrow> (st\<lparr>next_oid := Suc (next_oid st)\<rparr>, responded 500 (internal_error e))
           | Inr (c, st') \<Rightarrow> (st', responded 201 (JObj [(''message'', JStr ''Category added successfully.''),
                                                      (''category'', category_json c)]))))"
  by (simp add: serve_def addCategory_def handler_defs new_category_def find_one_slug_def
      internal_error_def res0_def res_json_def Let_def split: sum.splits option.splits prod.splits)

lemma serve_showCategory:
  "serve (showCategory sid) st =
     (case cast_oid sid of
        Inl e \<Rightarrow> (st, responded 500 (next_error 500 (error_message e)))
      | Inr i \<Rightarrow>
        (case find (\<lambda>c. cat_id c = i) (cats st) of
           None \<Rightarrow> (st, \<lparr>res_sent = Some (404, next_error 404 ''Data not found.''),
                         res_log = [HeadersSentError]\<rparr>)
         | Some c \<Rightarrow> (st, responded 200 (JObj [(''category'', category_json c)]))))"
  by (auto simp: serve_def showCategory_def handler_defs find_by_id_def express_next_def
      next_error_def handleError_def category_or_null_def res0_def res_json_def
      split: sum.splits option.splits prod.splits)

lemma serve_updateCategory:
  "serve (updateCategory sid body) st =
     (case update_by_id sid (js_prop body ''name'') (js_prop body ''slug'') st of
        Inl e \<Rightarrow> (st, responded 500 (next_error 500 (error_message e)))
      | Inr (r, st') \<Rightarrow> (st', responded 200 (JObj [(''success'', JBool True),
             (''message'', JStr ''Category updated successfully.''), (''category'', category_or_null r)])))"
  by (auto simp: serve_def updateCategory_def handler_defs express_next_def next_error_def
      handleError_def res0_def res_json_def split: sum.splits option.splits prod.splits)

lemma serve_deleteCategory:
  "serve (deleteCategory sid) st =
     (case cast_oid sid of
        Inl e \<Rightarrow> (st, responded 500 (next_error 500 (error_message e)))
      | Inr i \<Rightarrow> (st\<lparr>cats := filter (\<lambda>c. cat_id c \<noteq> i) (cats st)\<rparr>,
                 responded 200 (JObj [(''success'', JBool True), (''message'', JStr ''Category Deleted successfully.'')])))"
  by (auto simp: serve_def deleteCategory_def handler_defs delete_by_id_def express_next_def
      next_error_def handleError_def res0_def res_json_def split: sum.splits option.splits prod.splits)

lemma serve_getAllCategory:
  "serve getAllCategory st =
     (st, responded 200 (JObj [(''category'', JArr (map category_json (sort_key cat_name (cats st))))]))"
  by (simp add: serve_def getAllCategory_def handler_defs find_all_sorted_def res0_def res_json_def)

lemmas serve_simps = serve_addCategory serve_showCategory serve_updateCategory
  serve_deleteCategory serve_getAllCategory

section \<open>Functional behaviour\<close>

lemma slug_absent_find:
  "Some s \<notin> cat_slug ` set xs \<Longrightarrow>
   find (\<lambda>c. cat_slug c = Some s) xs = None \<and> \<not> (\<exists>c \<in> set xs. cat_slug c = Some s)"
  by (force simp: find_None_iff)

text \<open>C1: POST /category/add with a non-empty name and a non-empty slug that no
  category has appends one document with the next ObjectId, that name and that slug, and
  answers 201 with the message and the created category.\<close>

theorem addCategory_created:
  assumes "js_prop body ''name'' = JStr n" "js_prop body ''slug'' = JStr s" "n \<noteq> []" "s \<noteq> []"
    and "Some s \<notin> cat_slug ` set (cats st)"
  shows "serve (addCategory body) st =
    (st\<lparr>cats := cats st @ [\<lparr>cat_id = next_oid st, cat_name = Some n, cat_slug = Some s\<rparr>],
        next_oid := Suc (next_oid st)\<rparr>,
     responded 201 (JObj [(''message'', JStr ''Category added successfully.''),
       (''category'', category_json \<lparr>cat_id = next_oid st, cat_name = Some n, cat_slug = Some s\<rparr>)]))"
proof -
  from assms(5) have "find (\<lambda>c. cat_slug c = Some s) (cats st) = None"
    and "\<not> (\<exists>c \<in> set (cats st). cat_slug c = Some s)"
    by (simp_all add: slug_absent_find)
  then show ?thesis
    using assms(1-4) by (simp add: serve_addCategory save_category_def required_str_def Let_def)
qed

theorem addCategory_created_witness:
  "snd (serve (addCategory (JObj [(''name'', JStr ''Tech News''), (''slug'', JStr ''tech-news'')])) (empty_store False)) =
   responded 201 (JObj [(''message'', JStr ''Category added successfully.''),
     (''category'', category_json \<lparr>cat_id = 1, cat_name = Some ''Tech News'', cat_slug = Some ''tech-news''\<rparr>)])"
  using addCategory_created [of "(JObj [(''name'', JStr ''Tech News''), (''slug'', JStr ''tech-news'')])" "''Tech News''" "''tech-news''" "empty_store False"]
  by (simp add: empty_store_def)

text \<open>C2: adding a category whose slug (after the mapper's cast) equals the slug of a
  stored category answers 409 and leaves the store unchanged.\<close>

theorem addCategory_duplicate_slug:
  assumes "truthy (js_prop body ''name'')" "truthy (js_prop body ''slug'')"
    and "cast_str (js_prop body ''slug'') = Inr v" "v \<in> cat_slug ` set (cats st)"
  shows "serve (addCategory body) st = (st, responded 409 (msg_json ''Category slug already exists.''))"
proof -
  have "find (\<lambda>c. cat_slug c = v) (cats st) \<noteq> None"
    using assms(4) by (auto simp: find_None_iff)
  with assms(1-2) cast_query_scalar [OF assms(3)] show ?thesis
    by (simp add: serve_addCategory)
qed

theorem addCategory_duplicate_slug_witness:
  "serve (addCategory (JObj [(''name'', JStr ''Other''), (''slug'', JStr ''tech-news'')])) \<lparr>cats = [\<lparr>cat_id = 1, cat_name = Some ''Tech News'', cat_slug = Some ''tech-news''\<rparr>], next_oid = 2, slug_index = False\<rparr> =
   (\<lparr>cats = [\<lparr>cat_id = 1, cat_name = Some ''Tech News'', cat_slug = Some ''tech-news''\<rparr>], next_oid = 2, slug_index = False\<rparr>, responded 409 (msg_json ''Category slug already exists.''))"
  by (rule addCategory_duplicate_slug [where v = "Some ''tech-news''"]) simp_all

text \<open>C3: when the body's name or slug is missing or falsy (undefined, null, false, 0 or
  the empty string) the request is answered 400 and the store is unchanged.\<close>

theorem addCategory_missing_field:
  "\<not> truthy (js_prop body ''name'') \<or> \<not> truthy (js_prop body ''slug'') \<Longrightarrow>
   serve (addCategory body) st = (st, responded 400 (msg_json ''Name and slug are required.''))"
  by (auto simp: serve_addCategory)

theorem addCategory_missing_field_witness:
  "serve (addCategory (JObj [(''name'', JStr ''Tech News'')])) (empty_store False) =
   (empty_store False, responded 400 (msg_json ''Name and slug are required.''))"
  by (rule addCategory_missing_field) simp

text \<open>C4: GET /category/all-category answers 200 with a list of categories that is sorted by
  name and is a permutation of the stored documents, and leaves the store unchanged.\<close>

theorem getAllCategory_sorted:
  "\<exists>cs. serve getAllCategory st = (st, responded 200 (JObj [(''category'', JArr (map category_json cs))]))
        \<and> sorted (map cat_name cs) \<and> mset cs = mset (cats st)"
  by (rule exI [where x = "sort_key cat_name (cats st)"]) (simp add: serve_getAllCategory)

text \<open>C6: deleting a well-formed id that no category has answers 200 and leaves the store
  unchanged (delete is idempotent, not an error).\<close>

theorem deleteCategory_missing_ok:
  "cast_oid sid = Inr i \<Longrightarrow> i \<notin> cat_id ` set (cats st) \<Longrightarrow>
   serve (deleteCategory sid) st =
     (st, responded 200 (JObj [(''success'', JBool True), (''message'', JStr ''Category Deleted successfully.'')]))"
proof -
  assume "cast_oid sid = Inr i" "i \<notin> cat_id ` set (cats st)"
  moreover from this(2) have "filter (\<lambda>c. cat_id c \<noteq> i) (cats st) = cats st"
    by (auto intro: filter_True)
  ultimately show ?thesis
    by (simp add: serve_deleteCategory)
qed

theorem deleteCategory_missing_ok_witness:
  "serve (deleteCategory (oid_hex 5)) (empty_store False) =
   (empty_store False, responded 200 (JObj [(''success'', JBool True), (''message'', JStr ''Category Deleted successfully.'')]))"
proof -
  have "cast_oid (oid_hex 5) = Inr 5"
    by (simp add: cast_oid_def oid_hex_def parse_hex_digits)
  then show ?thesis
    by (rule deleteCategory_missing_ok) (simp add: empty_store_def)
qed

text \<open>C7: GET /category/show/:id with a well-formed id that no category has: the client
  receives 404 Data not found, but the handler does not return after next(), writes a
  second response and fails with ERR_HTTP_HEADERS_SENT, which is logged.\<close>

theorem showCategory_missing_double_response:
  "cast_oid sid = Inr i \<Longrightarrow> i \<notin> cat_id ` set (cats st) \<Longrightarrow>
   serve (showCategory sid) st =
     (st, \<lparr>res_sent = Some (404, next_error 404 ''Data not found.''), res_log = [HeadersSentError]\<rparr>)"
proof -
  assume "cast_oid sid = Inr i" "i \<notin> cat_id ` set (cats st)"
  moreover from this(2) have "find (\<lambda>c. cat_id c = i) (cats st) = None"
    by (force simp: find_None_iff)
  ultimately show ?thesis
    by (simp add: serve_showCategory)
qed

theorem showCategory_missing_double_response_witness:
  "serve (showCategory (oid_hex 5)) (empty_store False) =
   (empty_store False, \<lparr>res_sent = Some (404, next_error 404 ''Data not found.''), res_log = [HeadersSentError]\<rparr>)"
proof -
  have "cast_oid (oid_hex 5) = Inr 5"
    by (simp add: cast_oid_def oid_hex_def parse_hex_digits)
  then show ?thesis
    by (rule showCategory_missing_double_response) (simp add: empty_store_def)
qed

text \<open>C8: GET /category/show/:id with an id that is not 24 hex digits answers 500 with the
  mapper's cast error, not 404.\<close>

theorem showCategory_malformed_id:
  "cast_oid sid = Inl e \<Longrightarrow> serve (showCategory sid) st = (st, responded 500 (next_error 500 (error_message e)))"
  by (simp add: serve_showCategory)

theorem showCategory_malformed_id_witness:
  "serve (showCategory ''abc'') (empty_store False) =
   (empty_store False, responded 500 (next_error 500 (error_message (CastError ''ObjectId'' ''abc''))))"
  by (rule showCategory_malformed_id) (simp add: cast_oid_def)

text \<open>C11: the \<open>_id\<close> a response carries for a stored category, sent back as the path
  parameter of GET /category/show/:id, finds that category: 200 with the same JSON.\<close>

theorem showCategory_roundtrip:
  assumes "store_wf st" "c \<in> set (cats st)" "cat_id c < 16 ^ 24"
    and "js_prop (category_json c) ''_id'' = JStr sid"
  shows "serve (showCategory sid) st = (st, responded 200 (JObj [(''category'', category_json c)]))"
proof -
  from assms(4) have "sid = oid_hex (cat_id c)"
    by (simp add: category_json_def)
  with assms(3) have "cast_oid sid = Inr (cat_id c)"
    by (simp add: cast_oid_oid_hex)
  moreover from assms(1,2) have "find (\<lambda>d. cat_id d = cat_id c) (cats st) = Some c"
    by (simp add: store_wf_def find_id_distinct)
  ultimately show ?thesis
    by (simp add: serve_showCategory)
qed

theorem showCategory_roundtrip_witness:
  "serve (showCategory (oid_hex 1)) \<lparr>cats = [\<lparr>cat_id = 1, cat_name = Some ''Tech News'', cat_slug = Some ''tech-news''\<rparr>], next_oid = 2, slug_index = False\<rparr> =
   (\<lparr>cats = [\<lparr>cat_id = 1, cat_name = Some ''Tech News'', cat_slug = Some ''tech-news''\<rparr>], next_oid = 2, slug_index = False\<rparr>,
    responded 200 (JObj [(''category'', category_json \<lparr>cat_id = 1, cat_name = Some ''Tech News'', cat_slug = Some ''tech-news''\<rparr>)]))"
  by (rule showCategory_roundtrip) (simp_all add: store_wf_def category_json_def)

text \<open>C12: PUT /category/update/:id with a well-formed id that no category has answers 200
  with success true and a null category, and changes nothing.\<close>

theorem updateCategory_missing_id:
  "cast_oid sid = Inr i \<Longrightarrow> i \<notin> cat_id ` set (cats st) \<Longrightarrow>
   cast_update (js_prop body ''name'') = Inr n \<Longrightarrow> cast_update (js_prop body ''slug'') = Inr s \<Longrightarrow>
   serve (updateCategory sid body) st =
     (st, responded 200 (JObj [(''success'', JBool True), (''message'', JStr ''Category updated successfully.''),
                               (''category'', JNull)]))"
proof -
  assume "cast_oid sid = Inr i" "i \<notin> cat_id ` set (cats st)"
    "cast_update (js_prop body ''name'') = Inr n" "cast_update (js_prop body ''slug'') = Inr s"
  moreover from this(2) have "find (\<lambda>c. cat_id c = i) (cats st) = None"
    by (force simp: find_None_iff)
  ultimately show ?thesis
    by (simp add: serve_updateCategory update_by_id_def category_or_null_def)
qed

theorem updateCategory_missing_id_witness:
  "serve (updateCategory (oid_hex 5) (JObj [(''name'', JStr ''Technology'')])) (empty_store False) =
   (empty_store False, responded 200 (JObj [(''success'', JBool True),
      (''message'', JStr ''Category updated successfully.''), (''category'', JNull)]))"
proof -
  have "cast_oid (oid_hex 5) = Inr 5"
    by (simp add: cast_oid_def oid_hex_def parse_hex_digits)
  then show ?thesis
    by (rule updateCategory_missing_id) (simp_all add: empty_store_def cast_update_def)
qed


text \<open>C28: findByIdAndUpdate runs without the schema's validators: an update whose name
  is the empty string or null is stored as it is and answered 200, although the schema
  requires a name.\<close>

theorem update_skips_validation:
  assumes "find (\<lambda>d. cat_id d = i) (cats st) = Some c" "i < 16 ^ 24" "slugs_distinct st"
    and "v = JStr [] \<or> v = JNull"
  shows "serve (updateCategory (oid_hex i) (JObj [(''name'', v)])) st =
           (st\<lparr>cats := map (\<lambda>d. if cat_id d = i then c\<lparr>cat_name := projr (cast_str v)\<rparr> else d) (cats st)\<rparr>,
            responded 200 (JObj [(''success'', JBool True), (''message'', JStr ''Category updated successfully.''),
              (''category'', category_json (c\<lparr>cat_name := projr (cast_str v)\<rparr>))]))
         \<and> projr (cast_str v) \<in> {Some [], None}"
proof -
  from find_Some_prop [OF assms(1)] have c: "c \<in> set (cats st)" "cat_id c = i"
    by simp_all
  have "\<not> (\<exists>d \<in> set (cats st). cat_id d \<noteq> i \<and> cat_slug d = cat_slug c)"
    using slugs_distinct_other [OF assms(3) c(1)] c(2) by blast
  with assms(1,2,4) show ?thesis
    by (auto simp: serve_updateCategory update_by_id_def cast_oid_oid_hex cast_update_def set_fields_def
        category_or_null_def Let_def)
qed

theorem update_skips_validation_witness:
  "fst (serve (updateCategory (oid_hex 1) (JObj [(''name'', JStr [])])) \<lparr>cats = [\<lparr>cat_id = 1, cat_name = Some ''Tech'', cat_slug = Some ''tech''\<rparr>], next_oid = 2, slug_index = True\<rparr>) =
   \<lparr>cats = [\<lparr>cat_id = 1, cat_name = Some [], cat_slug = Some ''tech''\<rparr>], next_oid = 2, slug_index = True\<rparr>"
  using update_skips_validation [of 1 "\<lparr>cats = [\<lparr>cat_id = 1, cat_name = Some ''Tech'', cat_slug = Some ''tech''\<rparr>], next_oid = 2, slug_index = True\<rparr>" "\<lparr>cat_id = 1, cat_name = Some ''Tech'', cat_slug = Some ''tech''\<rparr>" "JStr []"]
  by (simp add: slugs_distinct_def)



section \<open>Invariants\<close>

lemma addCategory_store_cases:
  obtains "fst (serve (addCategory body) st) = st"
  | "fst (serve (addCategory body) st) = st\<lparr>next_oid := Suc (next_oid st)\<rparr>"
  | c P where "cast_query (js_prop body ''slug'') = Inr P" "find (\<lambda>c. P (cat_slug c)) (cats st) = None"
      "save_category (next_oid st, js_prop body ''name'', js_prop body ''slug'')
         (st\<lparr>next_oid := Suc (next_oid st)\<rparr>) = Inr (c, fst (serve (addCategory body) st))"
  using that serve_addCategory [of body st]
  by (auto simp: Let_def split: if_splits sum.splits prod.splits)

lemma addCategory_slugs_distinct:
  assumes "slugs_distinct st" shows "slugs_distinct (fst (serve (addCategory body) st))"
proof (cases rule: addCategory_store_cases [of body st])
  case 1
  with assms show ?thesis by simp
next
  case 2
  with assms show ?thesis by (simp add: slugs_distinct_def)
next
  case (3 c P)
  from 3(3) obtain y where y: "required_str ''slug'' (js_prop body ''slug'') = Inr y"
    and c: "cat_slug c = Some y" and st': "cats (fst (serve (addCategory body) st)) = cats st @ [c]"
    by (auto simp: save_category_Inr)
  from y have "cast_query (js_prop body ''slug'') = Inr (\<lambda>x. x = Some y)"
    by (simp add: required_str_Inr cast_query_scalar)
  with 3(1) have "P = (\<lambda>x. x = Some y)"
    by simp
  with 3(2) c have "cat_slug c \<notin> cat_slug ` set (cats st)"
    by (force simp: find_None_iff)
  with assms st' show ?thesis
    by (simp add: slugs_distinct_def)
qed

lemma serve_nonupdate_slugs_distinct:
  "\<not> is_update op \<Longrightarrow> slugs_distinct st \<Longrightarrow> slugs_distinct (fst (serve (handler op) st))"
proof (cases op)
  case (AddCategory body)
  then show "slugs_distinct st \<Longrightarrow> ?thesis" by (simp add: addCategory_slugs_distinct)
next
  case (DeleteCategory sid)
  then show "slugs_distinct st \<Longrightarrow> ?thesis"
    by (auto simp: serve_deleteCategory slugs_distinct_def distinct_map_filter split: sum.splits)
qed (auto simp: serve_simps split: sum.splits option.splits)

text \<open>C9: the slug check of addCategory (lines 10--13) keeps slugs unique on its own:
  in every store reached from an empty collection by adds, shows, deletes and listings,
  served one after the other, no two categories share a slug, whether or not the
  collection has a unique index (C10 shows that an update breaks this without the
  index, and C26 that concurrent adds do).\<close>

theorem add_keeps_slugs_distinct: "reachable_by (\<lambda>op. \<not> is_update op) st \<Longrightarrow> slugs_distinct st"
proof (induction rule: reachable_by.induct)
  case (reach_by_empty idx)
  then show ?case by (simp add: empty_store_def slugs_distinct_def)
next
  case (reach_by_serve st op)
  then show ?case by (simp add: serve_nonupdate_slugs_distinct)
qed

theorem add_keeps_slugs_distinct_witness:
  "slugs_distinct (fst (serve (handler (AddCategory (JObj [(''name'', JStr ''Tech News''), (''slug'', JStr ''tech-news'')])))
     (fst (serve (handler (AddCategory (JObj [(''name'', JStr ''Tech News''), (''slug'', JStr ''tech-news'')]))) (empty_store False)))))"
  by (rule add_keeps_slugs_distinct) (intro reachable_by.intros; simp)

text \<open>C10: without the unique index, PUT /category/update/:id does not re-check slug
  uniqueness: two adds and one update reach a store in which two categories share a slug.\<close>

theorem update_duplicates_slug_without_index:
  "let st1 = fst (serve (handler (AddCategory (JObj [(''name'', JStr ''Tech News''), (''slug'', JStr ''tech-news'')])))
                   (empty_store False));
       st2 = fst (serve (handler (AddCategory (JObj [(''name'', JStr ''Sports''), (''slug'', JStr ''sports'')]))) st1);
       st3 = fst (serve (handler (UpdateCategory (oid_hex 2) (JObj [(''slug'', JStr ''tech-news'')]))) st2)
   in reachable st3 \<and> slugs_distinct st2 \<and> \<not> slugs_distinct st3"
proof -
  define st1 where "st1 = fst (serve (handler (AddCategory (JObj [(''name'', JStr ''Tech News''), (''slug'', JStr ''tech-news'')])))
                   (empty_store False))"
  define st2 where "st2 = fst (serve (handler (AddCategory (JObj [(''name'', JStr ''Sports''), (''slug'', JStr ''sports'')]))) st1)"
  define st3 where "st3 = fst (serve (handler (UpdateCategory (oid_hex 2) (JObj [(''slug'', JStr ''tech-news'')]))) st2)"
  have r: "reachable st3"
    unfolding st3_def st2_def st1_def by (intro reachable.intros)
  have s1: "st1 = \<lparr>cats = [\<lparr>cat_id = 1, cat_name = Some ''Tech News'', cat_slug = Some ''tech-news''\<rparr>],
                     next_oid = 2, slug_index = False\<rparr>"
    by (simp add: st1_def serve_addCategory empty_store_def save_category_def required_str_def Let_def)
  have s2: "st2 = \<lparr>cats = [\<lparr>cat_id = 1, cat_name = Some ''Tech News'', cat_slug = Some ''tech-news''\<rparr>,
                            \<lparr>cat_id = 2, cat_name = Some ''Sports'', cat_slug = Some ''sports''\<rparr>],
                     next_oid = 3, slug_index = False\<rparr>"
    by (simp add: st2_def s1 serve_addCategory save_category_def required_str_def Let_def)
  have "cast_oid (oid_hex 2) = Inr 2"
    by (simp add: cast_oid_def oid_hex_def parse_hex_digits)
  then have s3: "st3 = \<lparr>cats = [\<lparr>cat_id = 1, cat_name = Some ''Tech News'', cat_slug = Some ''tech-news''\<rparr>,
                            \<lparr>cat_id = 2, cat_name = Some ''Sports'', cat_slug = Some ''tech-news''\<rparr>],
                     next_oid = 3, slug_index = False\<rparr>"
    by (simp add: st3_def s2 serve_updateCategory update_by_id_def cast_update_def set_fields_def Let_def)
  have d: "slugs_distinct st2 \<and> \<not> slugs_distinct st3"
    by (simp add: s2 s3 slugs_distinct_def)
  show ?thesis
    using r d unfolding st1_def st2_def st3_def Let_def by blast
qed


end
