(* ===== verification/Category_Route.thy ===== *)
theory Category_Route
  imports Category_Controller
begin

text \<open>
  api/routes/Category.route.js: an Express router with five routes, each a method, a
  path pattern and a controller handler, and no authorisation middleware. The router
  tries its routes in registration order and runs the first whose method is the
  request's and whose pattern matches the path. As in Express 4, a literal segment
  matches case-insensitively, \<open>:categoryid\<close> matches one non-empty segment without a
  slash, and one trailing slash is allowed. The application mounts the router at
  \<open>/category\<close> (api/index.js, not among the sources; modelled from the specification's
  interface table); a request no route matches falls through to Express's final handler,
  which answers 404. Percent-decoding of path parameters is not modelled.
\<close>

section \<open>Requests and patterns\<close>

datatype http_method = GET | POST | PUT | DELETE | PATCH

datatype seg = Lit string | Param

definition lower_char :: "char \<Rightarrow> char" where
  "lower_char c = (if CHR ''A'' \<le> c \<and> c \<le> CHR ''Z'' then char_of (of_char c + (32::nat)) else c)"

text \<open>Split a path into its segments: the path starts with a slash, the segments are the
  pieces between slashes, and one empty last segment (a trailing slash) is dropped.\<close>

fun split_on_slash :: "string \<Rightarrow> string \<Rightarrow> string list" where
  "split_on_slash acc [] = [rev acc]"
| "split_on_slash acc (c # cs) =
     (if c = CHR ''/'' then rev acc # split_on_slash [] cs else split_on_slash (c # acc) cs)"

definition path_segments :: "string \<Rightarrow> string list option" where
  "path_segments p =
     (case p of
        c # cs \<Rightarrow>
          (if c = CHR ''/'' then
             (let segs = split_on_slash [] cs in
              Some (if 1 < length segs \<and> last segs = [] then butlast segs else segs))
           else None)
      | [] \<Rightarrow> None)"

fun match_segs :: "seg list \<Rightarrow> string list \<Rightarrow> string list option" where
  "match_segs [] [] = Some []"
| "match_segs (Lit l # ps) (s # ss) =
     (if map lower_char s = map lower_char l then match_segs ps ss else None)"
| "match_segs (Param # ps) (s # ss) =
     (if s \<noteq> [] then map_option (Cons s) (match_segs ps ss) else None)"
| "match_segs _ _ = None"

section \<open>The router\<close>

datatype route_kind = RAdd | RUpdate | RShow | RDelete | RAllCategory

text \<open>The five route registrations, in the order of the source (lines 8--12).\<close>

definition CategoryRoute :: "(http_method \<times> seg list \<times> route_kind) list" where
  "CategoryRoute =
     [(POST, [Lit ''add''], RAdd),
      (PUT, [Lit ''update'', Param], RUpdate),
      (GET, [Lit ''show'', Param], RShow),
      (DELETE, [Lit ''delete'', Param], RDelete),
      (GET, [Lit ''all-category''], RAllCategory)]"

fun route_op :: "route_kind \<Rightarrow> string list \<Rightarrow> json \<Rightarrow> cat_op" where
  "route_op RAdd ps body = AddCategory body"
| "route_op RUpdate ps body = UpdateCategory (hd ps) body"
| "route_op RShow ps body = ShowCategory (hd ps)"
| "route_op RDelete ps body = DeleteCategory (hd ps)"
| "route_op RAllCategory ps body = GetAllCategory"

fun first_route :: "(http_method \<times> seg list \<times> route_kind) list \<Rightarrow> http_method \<Rightarrow> string list \<Rightarrow> json \<Rightarrow> cat_op option" where
  "first_route [] m segs body = None"
| "first_route ((rm, pat, k) # rs) m segs body =
     (if rm = m then (case match_segs pat segs of
                        Some ps \<Rightarrow> Some (route_op k ps body)
                      | None \<Rightarrow> first_route rs m segs body)
      else first_route rs m segs body)"

text \<open>The application: the router mounted at \<open>/category\<close>.\<close>

definition app_route :: "http_method \<Rightarrow> string \<Rightarrow> json \<Rightarrow> cat_op option" where
  "app_route m path body =
     (case path_segments path of
        Some (s # segs) \<Rightarrow>
          (if map lower_char s = ''category'' then first_route CategoryRoute m segs body else None)
      | _ \<Rightarrow> None)"

text \<open>The method each operation is registered under.\<close>

fun op_method :: "cat_op \<Rightarrow> http_method" where
  "op_method (AddCategory b) = POST"
| "op_method (ShowCategory s) = GET"
| "op_method (UpdateCategory s b) = PUT"
| "op_method (DeleteCategory s) = DELETE"
| "op_method GetAllCategory = GET"

definition method_name :: "http_method \<Rightarrow> string" where
  "method_name m = (case m of GET \<Rightarrow> ''GET'' | POST \<Rightarrow> ''POST'' | PUT \<Rightarrow> ''PUT''
                     | DELETE \<Rightarrow> ''DELETE'' | PATCH \<Rightarrow> ''PATCH'')"

definition serve_http :: "store \<Rightarrow> http_method \<Rightarrow> string \<Rightarrow> json \<Rightarrow> store \<times> http_res" where
  "serve_http st m path body =
     (case app_route m path body of
        None \<Rightarrow> (st, res0\<lparr>res_sent := Some (404, JStr (''Cannot '' @ method_name m @ '' '' @ path))\<rparr>)
      | Some op \<Rightarrow> serve (handler op) st)"

section \<open>Lemmas\<close>

lemma split_on_slash_no_slash: "CHR ''/'' \<notin> set s \<Longrightarrow> split_on_slash acc s = [rev acc @ s]"
  by (induction s arbitrary: acc) auto

lemma first_route_in_table:
  "first_route rs m segs body = Some op \<Longrightarrow> \<exists>pat k ps. (m, pat, k) \<in> set rs \<and> op = route_op k ps body"
  by (induction rs m segs body rule: first_route.induct) (auto split: if_splits option.splits)

lemma app_route_in_table:
  assumes "app_route m path body = Some op"
  obtains pat k ps where "(m, pat, k) \<in> set CategoryRoute" "op = route_op k ps body"
proof -
  from assms obtain segs where "first_route CategoryRoute m segs body = Some op"
    by (auto simp: app_route_def split: option.splits list.splits if_splits)
  then show thesis
    using that by (blast dest: first_route_in_table)
qed

lemma read_only_ops:
  "op_method op = GET \<Longrightarrow> fst (serve (handler op) st) = st"
  by (cases op) (auto simp: serve_showCategory serve_getAllCategory split: sum.splits option.splits)

lemma serve_http_add: "serve_http st POST ''/category/add'' body = serve (addCategory body) st"
  by (simp add: serve_http_def app_route_def path_segments_def CategoryRoute_def lower_char_def)

lemma serve_http_all: "serve_http st GET ''/category/all-category'' body = serve getAllCategory st"
  by (simp add: serve_http_def app_route_def path_segments_def CategoryRoute_def lower_char_def)

section \<open>Properties\<close>

text \<open>C13: the router sends POST /category/add, PUT /category/update/:id,
  GET /category/show/:id, DELETE /category/delete/:id and GET /category/all-category to
  addCategory, updateCategory, showCategory, deleteCategory and getAllCategory, with the
  path segment as the id.\<close>

theorem app_route_table:
  assumes "sid \<noteq> []" "CHR ''/'' \<notin> set sid"
  shows "app_route POST ''/category/add'' body = Some (AddCategory body)
       \<and> app_route PUT (''/category/update/'' @ sid) body = Some (UpdateCategory sid body)
       \<and> app_route GET (''/category/show/'' @ sid) body = Some (ShowCategory sid)
       \<and> app_route DELETE (''/category/delete/'' @ sid) body = Some (DeleteCategory sid)
       \<and> app_route GET ''/category/all-category'' body = Some GetAllCategory"
  using assms
  by (simp add: app_route_def path_segments_def CategoryRoute_def lower_char_def split_on_slash_no_slash)

theorem app_route_table_witness:
  "app_route PUT ''/category/update/000000000000000000000001'' JNull =
     Some (UpdateCategory ''000000000000000000000001'' JNull)"
  using app_route_table [of "''000000000000000000000001''" JNull] by simp

text \<open>C14: a request reaches only the handler registered under its method; in particular
  a GET request never changes the store.\<close>

theorem app_route_method:
  "app_route m path body = Some op \<Longrightarrow> op_method op = m \<and> (m = GET \<longrightarrow> fst (serve (handler op) st) = st)"
proof -
  assume "app_route m path body = Some op"
  then obtain pat k ps where "(m, pat, k) \<in> set CategoryRoute" "op = route_op k ps body"
    by (rule app_route_in_table)
  then have "op_method op = m"
    by (auto simp: CategoryRoute_def)
  then show ?thesis
    by (auto intro: read_only_ops)
qed

theorem app_route_method_witness:
  "op_method (ShowCategory ''abc'') = GET \<and> fst (serve (handler (ShowCategory ''abc'')) (empty_store False)) = empty_store False"
proof -
  have "app_route GET ''/category/show/abc'' JNull = Some (ShowCategory ''abc'')"
    by (simp add: app_route_def path_segments_def CategoryRoute_def lower_char_def)
  then show ?thesis
    using app_route_method [of GET "''/category/show/abc''" JNull "ShowCategory ''abc''" "empty_store False"] by simp
qed

end
