(* ===== verification/Category_Abstract.thy ===== *)
theory Category_Abstract
  imports Category_Controller
begin

text \<open>
  The contract of the category service on its abstract state, the map \<open>cat_map\<close> from
  ObjectIds to (name, slug): add inserts the fresh id with the body's non-empty name and
  a slug no stored category has, or changes nothing; update changes at most the entry of
  the id it addresses and never the set of ids; delete removes the entry of its id; show
  and list change nothing. The refinement lemma shows that serving any operation on a
  well-formed store moves its abstract view as the contract allows.
\<close>

type_synonym cat_abs = "oid \<rightharpoonup> string option \<times> string option"

definition map_contract :: "cat_op \<Rightarrow> store \<Rightarrow> cat_abs \<Rightarrow> cat_abs \<Rightarrow> bool" where
  "map_contract op st m m' =
     (case op of
        AddCategory b \<Rightarrow>
          m' = m \<or>
          (\<exists>n s. cast_str (js_prop b ''name'') = Inr (Some n) \<and> n \<noteq> [] \<and>
                 cast_str (js_prop b ''slug'') = Inr (Some s) \<and> s \<noteq> [] \<and>
                 next_oid st \<notin> dom m \<and> Some s \<notin> snd ` ran m \<and> m' = m(next_oid st \<mapsto> (Some n, Some s)))
      | ShowCategory sid \<Rightarrow> m' = m
      | UpdateCategory sid b \<Rightarrow> dom m' = dom m \<and> (\<forall>j. cast_oid sid \<noteq> Inr j \<longrightarrow> m' j = m j)
      | DeleteCategory sid \<Rightarrow> m' = (case cast_oid sid of Inl _ \<Rightarrow> m | Inr i \<Rightarrow> m(i := None))
      | GetAllCategory \<Rightarrow> m' = m)"

section \<open>Lemmas\<close>

lemma dom_cat_map: "dom (cat_map st) = cat_id ` set (cats st)"
  by (simp add: cat_map_def dom_map_of_conv_image_fst image_image cat_entry_def)

lemma ran_cat_map:
  "store_wf st \<Longrightarrow> ran (cat_map st) = (\<lambda>c. (cat_name c, cat_slug c)) ` set (cats st)"
  by (simp add: cat_map_def store_wf_def ran_distinct image_image cat_entry_def comp_def)

lemma cat_map_cats: "cats st' = cats st \<Longrightarrow> cat_map st' = cat_map st"
  by (simp add: cat_map_def)

lemma add_refines:
  assumes "store_wf st"
  shows "map_contract (AddCategory b) st (cat_map st) (cat_map (fst (serve (addCategory b) st)))"
proof (cases rule: addCategory_store_cases [of b st])
  case 1
  then show ?thesis by (simp add: map_contract_def)
next
  case 2
  then have "cat_map (fst (serve (addCategory b) st)) = cat_map st"
    by (simp add: cat_map_def)
  then show ?thesis by (simp add: map_contract_def)
next
  case (3 c P)
  let ?st' = "fst (serve (addCategory b) st)"
  from 3(3) obtain x y where x: "required_str ''name'' (js_prop b ''name'') = Inr x"
    and y: "required_str ''slug'' (js_prop b ''slug'') = Inr y"
    and c: "c = \<lparr>cat_id = next_oid st, cat_name = Some x, cat_slug = Some y\<rparr>"
    and st': "cats ?st' = cats st @ [c]"
    unfolding save_category_Inr by auto
  from x y have cx: "cast_str (js_prop b ''name'') = Inr (Some x)" "x \<noteq> []"
    and cy: "cast_str (js_prop b ''slug'') = Inr (Some y)" "y \<noteq> []"
    by (simp_all add: required_str_Inr)
  with 3(1) have "P = (\<lambda>x. x = Some y)"
    by (simp add: cast_query_scalar)
  with 3(2) have fresh_slug: "Some y \<notin> snd ` ran (cat_map st)"
    using assms by (auto simp: ran_cat_map find_None_iff)
  have fresh_id: "next_oid st \<notin> dom (cat_map st)"
    using assms by (auto simp: dom_cat_map store_wf_def)
  have "cat_id c \<notin> cat_id ` set (cats st)"
    using fresh_id c by (simp add: dom_cat_map)
  then have "cat_map ?st' = (cat_map st)(cat_id c \<mapsto> (cat_name c, cat_slug c))"
    unfolding cat_map_def st' by (rule map_of_append_fresh)
  then have "cat_map ?st' = (cat_map st)(next_oid st \<mapsto> (Some x, Some y))"
    using c by simp
  with cx cy fresh_slug fresh_id show ?thesis
    by (simp add: map_contract_def)
qed

lemma update_refines:
  "map_contract (UpdateCategory sid b) st (cat_map st) (cat_map (fst (serve (updateCategory sid b) st)))"
proof (cases "update_by_id sid (js_prop b ''name'') (js_prop b ''slug'') st")
  case (Inl e)
  then show ?thesis by (simp add: serve_updateCategory map_contract_def)
next
  case (Inr rs)
  then obtain r st' where u: "update_by_id sid (js_prop b ''name'') (js_prop b ''slug'') st = Inr (r, st')"
    by (cases rs) auto
  then have sv: "fst (serve (updateCategory sid b) st) = st'"
    by (simp add: serve_updateCategory)
  show ?thesis
  proof (cases r)
    case None
    with u have "st' = st"
      by (auto simp: update_by_id_Inr split: option.splits)
    with sv show ?thesis by (simp add: map_contract_def)
  next
    case (Some c')
    with u have u': "update_by_id sid (js_prop b ''name'') (js_prop b ''slug'') st = Inr (Some c', st')"
      by simp
    then obtain i c where i: "cast_oid sid = Inr i" and f: "find (\<lambda>c. cat_id c = i) (cats st) = Some c"
      and ci: "cat_id c' = i"
      and "st' = st\<lparr>cats := map (\<lambda>d. if cat_id d = i then c' else d) (cats st)\<rparr>"
      by (rule update_by_id_Some)
    from u' have m: "cat_map st' = (cat_map st)(cat_id c' \<mapsto> (cat_name c', cat_slug c'))"
      by (rule update_by_id_cat_map)
    from f have "i \<in> dom (cat_map st)"
      by (auto simp: cat_map_find)
    with m ci i sv show ?thesis
      by (auto simp: map_contract_def)
  qed
qed

lemma delete_refines:
  "map_contract (DeleteCategory sid) st (cat_map st) (cat_map (fst (serve (deleteCategory sid) st)))"
  by (auto simp: serve_deleteCategory map_contract_def cat_map_def map_of_filter_id split: sum.splits)

lemma show_refines:
  "map_contract (ShowCategory sid) st (cat_map st) (cat_map (fst (serve (showCategory sid) st)))"
  by (auto simp: serve_showCategory map_contract_def split: sum.splits option.splits)

text \<open>C27: serving any request on a well-formed store moves the abstract map as the
  contract allows: add inserts the fresh id with the body's name and a new slug or changes
  nothing, update touches at most its own id and never the set of ids, delete removes its
  id, show and list change nothing.\<close>

theorem serve_refines_contract:
  assumes "store_wf st"
  shows "map_contract op st (cat_map st) (cat_map (fst (serve (handler op) st)))"
proof (cases op)
  case (AddCategory b)
  with add_refines [OF assms, of b] show ?thesis by simp
next
  case (ShowCategory sid)
  with show_refines [of sid st] show ?thesis by simp
next
  case (UpdateCategory sid b)
  with update_refines [of sid b st] show ?thesis by simp
next
  case (DeleteCategory sid)
  with delete_refines [of sid st] show ?thesis by simp
next
  case GetAllCategory
  then show ?thesis by (simp add: serve_getAllCategory map_contract_def)
qed

theorem serve_refines_contract_witness:
  "map_contract (AddCategory (JObj [(''name'', JStr ''Tech News''), (''slug'', JStr ''tech-news'')])) (empty_store False)
     Map.empty [1 \<mapsto> (Some ''Tech News'', Some ''tech-news'')]"
proof -
  have "map_contract (AddCategory (JObj [(''name'', JStr ''Tech News''), (''slug'', JStr ''tech-news'')])) (empty_store False)
     (cat_map (empty_store False))
     (cat_map (fst (serve (handler (AddCategory (JObj [(''name'', JStr ''Tech News''), (''slug'', JStr ''tech-news'')]))) (empty_store False))))"
    by (rule serve_refines_contract) (simp add: store_wf_def empty_store_def)
  then show ?thesis
    by (simp add: serve_addCategory empty_store_def save_category_def required_str_def cat_map_def cat_entry_def
        Let_def)
qed

end
