(* ===== verification/Category_Runs.thy ===== *)
theory Category_Runs
  imports Category_Controller
begin

text \<open>
  The responses of the category service against the specification's interface table
  (section 4): for each operation the statuses it may answer. The property shows that
  every request is answered exactly once, with a status of its operation's row and a
  JSON object as body.
\<close>

definition is_object :: "json \<Rightarrow> bool" where
  "is_object v = (case v of JObj _ \<Rightarrow> True | _ \<Rightarrow> False)"

fun op_statuses :: "cat_op \<Rightarrow> nat list" where
  "op_statuses (AddCategory b) = [201, 400, 409, 500]"
| "op_statuses (ShowCategory sid) = [200, 404, 500]"
| "op_statuses (UpdateCategory sid b) = [200, 500]"
| "op_statuses (DeleteCategory sid) = [200, 500]"
| "op_statuses GetAllCategory = [200, 500]"

section \<open>Properties\<close>

text \<open>C30: every request is answered exactly once (the response that is sent is the
  first write), with a status from its operation's row of the interface table and a JSON
  object as body.\<close>

theorem serve_response_type:
  "\<exists>c b. res_sent (snd (serve (handler op) st)) = Some (c, b) \<and> c \<in> set (op_statuses op) \<and> is_object b"
proof (cases op)
  case (AddCategory b)
  then show ?thesis
    by (auto simp: serve_def addCategory_def handler_defs store_defs msg_json_def res0_def res_json_def
        is_object_def Let_def split: sum.splits option.splits prod.splits)
next
  case (ShowCategory sid)
  then show ?thesis
    by (auto simp: serve_def showCategory_def handler_defs store_defs express_next_def res0_def res_json_def
        error_body_def handleError_def is_object_def split: sum.splits option.splits prod.splits)
next
  case (UpdateCategory sid b)
  then show ?thesis
    by (auto simp: serve_def updateCategory_def handler_defs express_next_def res0_def res_json_def
        error_body_def handleError_def is_object_def split: sum.splits option.splits prod.splits)
next
  case (DeleteCategory sid)
  then show ?thesis
    by (auto simp: serve_def deleteCategory_def handler_defs store_defs express_next_def res0_def res_json_def
        error_body_def handleError_def is_object_def split: sum.splits option.splits prod.splits)
next
  case GetAllCategory
  then show ?thesis
    by (auto simp: serve_def getAllCategory_def handler_defs store_defs res0_def res_json_def is_object_def)
qed

end
