(* ===== verification/Client.thy ===== *)
theory Client
  imports Js_Values
begin

text \<open>
  What the two admin pages share: the Redux user slice that holds the session
  (client/src/redux/user/user.slice.js, not among the sources; modelled from the
  specification: \<open>setUser\<close> marks the session logged in and stores the user object), the
  toast notifications \<open>showToast(type, message)\<close> and the browser location, the outcome of
  a \<open>fetch\<close> as the page sees it (a network failure, a body that is not JSON, or a status
  and a parsed JSON body), and zod's string checks. A toast keeps its message as the
  JavaScript value passed, so \<open>showToast('error', data.message)\<close> with no message keeps
  \<open>undefined\<close>. zod's \<open>min(n)\<close> counts characters; \<open>email()\<close> is zod's e-mail
  regular expression, written out as a function.
\<close>

section \<open>Session, toasts, location\<close>

record session =
  isLoggedIn :: bool
  user :: json

definition logged_out :: session where
  "logged_out = \<lparr>isLoggedIn = False, user = JNull\<rparr>"

definition setUser :: "json \<Rightarrow> session \<Rightarrow> session" where
  "setUser u s = s\<lparr>isLoggedIn := True, user := u\<rparr>"

datatype toast_kind = ToastSuccess | ToastError

record ui =
  sess :: session
  toasts :: "(toast_kind \<times> json) list"
  location :: string

definition showToast :: "toast_kind \<Rightarrow> json \<Rightarrow> ui \<Rightarrow> ui" where
  "showToast k m u = u\<lparr>toasts := toasts u @ [(k, m)]\<rparr>"

definition navigate :: "string \<Rightarrow> ui \<Rightarrow> ui" where
  "navigate p u = u\<lparr>location := p\<rparr>"

section \<open>Fetch results\<close>

text \<open>\<open>await fetch(...)\<close> followed by \<open>await res.json()\<close>: the request fails, or the body
  does not parse (\<open>res.json()\<close> throws), or a status and a parsed body. \<open>res.ok\<close> is a
  status in 200--299.\<close>

datatype fetch_result =
    NetworkFailure string
  | BadJson
  | Reply nat json

definition res_ok :: "nat \<Rightarrow> bool" where
  "res_ok code \<longleftrightarrow> 200 \<le> code \<and> code \<le> 299"

definition bad_json_message :: string where
  "bad_json_message = ''Unexpected token < in JSON at position 0''"

section \<open>zod checks\<close>

definition zod_min :: "nat \<Rightarrow> string \<Rightarrow> bool" where
  "zod_min n s \<longleftrightarrow> n \<le> length s"

definition is_letter :: "char \<Rightarrow> bool" where
  "is_letter c \<longleftrightarrow> (CHR ''a'' \<le> c \<and> c \<le> CHR ''z'') \<or> (CHR ''A'' \<le> c \<and> c \<le> CHR ''Z'')"

definition is_digit :: "char \<Rightarrow> bool" where
  "is_digit c \<longleftrightarrow> CHR ''0'' \<le> c \<and> c \<le> CHR ''9''"

definition is_alnum :: "char \<Rightarrow> bool" where
  "is_alnum c \<longleftrightarrow> is_letter c \<or> is_digit c"

fun split_on :: "char \<Rightarrow> string \<Rightarrow> string \<Rightarrow> string list" where
  "split_on d acc [] = [rev acc]"
| "split_on d acc (c # cs) = (if c = d then rev acc # split_on d [] cs else split_on d (c # acc) cs)"

fun has_double_dot :: "string \<Rightarrow> bool" where
  "has_double_dot (a # b # cs) = ((a = CHR ''.'' \<and> b = CHR ''.'') \<or> has_double_dot (b # cs))"
| "has_double_dot _ = False"

definition email_label :: "string \<Rightarrow> bool" where
  "email_label l \<longleftrightarrow> l \<noteq> [] \<and> is_alnum (hd l) \<and> (\<forall>c \<in> set l. is_alnum c \<or> c = CHR ''-'')"

text \<open>zod's \<open>/^(?!\.)(?!.*\.\.)([A-Z0-9_'+\-\.]*)[A-Z0-9_+-]@([A-Z0-9][A-Z0-9\-]*\.)+[A-Z]{2,}$/i\<close>:
  one \<open>@\<close>; no leading dot and no two dots in a row; a non-empty local part of letters,
  digits and \<open>_'+-.\<close> ending in a letter, digit or \<open>_+-\<close>; a domain of one or more
  labels and a top-level part of at least two letters.\<close>

definition zod_email :: "string \<Rightarrow> bool" where
  "zod_email s =
     (case split_on (CHR ''@'') [] s of
        [l, d] \<Rightarrow>
          s \<noteq> [] \<and> hd s \<noteq> CHR ''.'' \<and> \<not> has_double_dot s \<and>
          l \<noteq> [] \<and> (\<forall>c \<in> set l. is_alnum c \<or> c \<in> set [CHR ''_'', CHR 0x27, CHR ''+'', CHR ''-'', CHR ''.'']) \<and>
          (is_alnum (last l) \<or> last l \<in> set ''_+-'') \<and>
          (let parts = split_on (CHR ''.'') [] d in
           2 \<le> length parts \<and> (\<forall>p \<in> set (butlast parts). email_label p) \<and>
           2 \<le> length (last parts) \<and> (\<forall>c \<in> set (last parts). is_letter c))
      | _ \<Rightarrow> False)"

section \<open>Rendered views\<close>

text \<open>What a page renders, as the sequence of elements the user sees: a heading, a form
  field (its label, input type, placeholder, current value and the message the
  \<open>FormMessage\<close> under it shows), a submit button, a list of items, or a redirect
  (\<open><Navigate to=...>\<close>). Layout and styling are not kept.\<close>

datatype view =
    Heading string
  | Field string string string string "string option"
  | Submit string
  | Items "string list"
  | Navigate string

end
