(* ===== verification/Admin_Login.thy ===== *)
theory Admin_Login
  imports Client
begin

text \<open>
  client/src/pages/AdminLogin.jsx. The form holds an e-mail and a password checked by a
  zod schema; \<open>form.handleSubmit(onSubmit)\<close> calls \<open>onSubmit\<close> only with values that
  pass it. \<open>onSubmit\<close> posts the values to \<open>/auth/login\<close> and reacts to the outcome:
  an error toast when the request fails, the body is not JSON or the status is not ok; an
  "Access denied" toast when the returned user is not an admin; otherwise it stores the
  user in the session, shows a success toast and navigates to \<open>/admin/categories\<close>.
  Reading \<open>data.user.role\<close> when \<open>data.user\<close> is missing throws, and the
  \<open>catch\<close> shows the error's message. The login endpoint is not among the sources, so
  the page is modelled against any server: a function from the submitted values to the
  fetch outcome.
\<close>

record login_values =
  email :: string
  password :: string

definition loginSchema :: "login_values \<Rightarrow> bool" where
  "loginSchema v \<longleftrightarrow> zod_email (email v) \<and> zod_min 3 (password v)"

definition login_body :: "login_values \<Rightarrow> json" where
  "login_body v = JObj [(''email'', JStr (email v)), (''password'', JStr (password v))]"

definition AdminLogin_onSubmit :: "fetch_result \<Rightarrow> ui \<Rightarrow> ui" where
  "AdminLogin_onSubmit r u =
     (case r of
        NetworkFailure m \<Rightarrow> showToast ToastError (JStr m) u
      | BadJson \<Rightarrow> showToast ToastError (JStr bad_json_message) u
      | Reply status data \<Rightarrow>
          (if \<not> res_ok status then
             (case get_prop data ''message'' of
                Inl e \<Rightarrow> showToast ToastError (JStr (error_message e)) u
              | Inr m \<Rightarrow> showToast ToastError m u)
           else
             (case get_prop data ''user'' of
                Inl e \<Rightarrow> showToast ToastError (JStr (error_message e)) u
              | Inr usr \<Rightarrow>
                 (case get_prop usr ''role'' of
                    Inl e \<Rightarrow> showToast ToastError (JStr (error_message e)) u
                  | Inr role \<Rightarrow>
                     (if role \<noteq> JStr ''admin''
                      then showToast ToastError (JStr ''Access denied: Admins only'') u
                      else navigate ''/admin/categories''
                             (showToast ToastSuccess (JStr ''Admin login successful'')
                               (u\<lparr>sess := setUser usr (sess u)\<rparr>)))))))"

text \<open>\<open>form.handleSubmit(onSubmit)\<close> with the login endpoint \<open>server\<close>, as seen by the
  session and the toasts: invalid values change nothing there (the messages they produce
  are kept by \<open>login_handleSubmit\<close> below).\<close>

definition login_submit :: "(json \<Rightarrow> fetch_result) \<Rightarrow> login_values \<Rightarrow> ui \<Rightarrow> ui" where
  "login_submit server v u =
     (if loginSchema v then AdminLogin_onSubmit (server (login_body v)) u else u)"

text \<open>The admin gate as a specification: the user object of an ok reply whose role is
  the string \<open>admin\<close>.\<close>

definition admin_user :: "fetch_result \<Rightarrow> json option" where
  "admin_user r =
     (case r of
        Reply status data \<Rightarrow>
          (if res_ok status \<and> js_prop (js_prop data ''user'') ''role'' = JStr ''admin''
           then Some (js_prop data ''user'') else None)
      | _ \<Rightarrow> None)"

text \<open>The messages \<open>zodResolver(schema)\<close> reports, per field, for values that fail the
  schema (lines 14--17): zod's default "Invalid email" for \<open>email()\<close>, and the message
  given to \<open>min(3, ...)\<close>.\<close>

definition login_errors :: "login_values \<Rightarrow> (string \<times> string) list" where
  "login_errors v =
     (if zod_email (email v) then [] else [(''email'', ''Invalid email'')]) @
     (if zod_min 3 (password v) then [] else [(''password'', ''Password is required'')])"

record login_form =
  lf_values :: login_values
  lf_errors :: "(string \<times> string) list"

text \<open>\<open>form.handleSubmit(onSubmit)\<close> (line 57): the resolver's errors are stored in the
  form state; \<open>onSubmit\<close> runs only when there are none.\<close>

definition login_handleSubmit :: "(json \<Rightarrow> fetch_result) \<Rightarrow> login_form \<Rightarrow> ui \<Rightarrow> login_form \<times> ui" where
  "login_handleSubmit server f u =
     (let v = lf_values f; errs = login_errors v in
      if errs = [] then (f\<lparr>lf_errors := []\<rparr>, AdminLogin_onSubmit (server (login_body v)) u)
      else (f\<lparr>lf_errors := errs\<rparr>, u))"

text \<open>The rendered page (lines 54--89): the heading, the two fields with the message of
  their error, and the button.\<close>

definition AdminLogin_view :: "login_form \<Rightarrow> view list" where
  "AdminLogin_view f =
     [Heading ''Admin Login'',
      Field ''Email'' ''text'' ''Enter your email'' (email (lf_values f)) (map_of (lf_errors f) ''email''),
      Field ''Password'' ''password'' ''Enter your password'' (password (lf_values f)) (map_of (lf_errors f) ''password''),
      Submit ''Login'']"

section \<open>Lemmas\<close>

lemma onSubmit_sess_location:
  "sess (AdminLogin_onSubmit r u) = (case admin_user r of None \<Rightarrow> sess u | Some usr \<Rightarrow> setUser usr (sess u))
   \<and> location (AdminLogin_onSubmit r u) = (if admin_user r = None then location u else ''/admin/categories'')"
  by (auto simp: AdminLogin_onSubmit_def admin_user_def get_prop_cases showToast_def navigate_def
      split: fetch_result.splits sum.splits if_splits)

text \<open>C15: submitting the login form changes the session, and moves to
  /admin/categories, exactly when the values pass the schema and the server's reply is ok
  with a user whose role is admin; the session then holds that user.\<close>

theorem login_submit_admin_gate:
  "sess (login_submit server v u) =
     (case (if loginSchema v then admin_user (server (login_body v)) else None) of
        None \<Rightarrow> sess u | Some usr \<Rightarrow> setUser usr (sess u))
   \<and> location (login_submit server v u) =
     (if loginSchema v \<and> admin_user (server (login_body v)) \<noteq> None then ''/admin/categories'' else location u)"
  by (simp add: login_submit_def onSubmit_sess_location)

text \<open>C16: an ok reply whose user is not an admin only shows the "Access denied: Admins
  only" toast: no session is stored and the page stays where it is.\<close>

theorem login_access_denied:
  "res_ok status \<Longrightarrow> js_prop data ''user'' = usr \<Longrightarrow> usr \<noteq> JUndef \<Longrightarrow> usr \<noteq> JNull \<Longrightarrow>
   data \<noteq> JUndef \<Longrightarrow> data \<noteq> JNull \<Longrightarrow> js_prop usr ''role'' \<noteq> JStr ''admin'' \<Longrightarrow>
   AdminLogin_onSubmit (Reply status data) u = showToast ToastError (JStr ''Access denied: Admins only'') u"
  by (simp add: AdminLogin_onSubmit_def get_prop_cases)

theorem login_access_denied_witness:
  "AdminLogin_onSubmit (Reply 200 (JObj [(''user'', JObj [(''role'', JStr ''user'')])]))
     \<lparr>sess = logged_out, toasts = [], location = ''/''\<rparr> =
   showToast ToastError (JStr ''Access denied: Admins only'') \<lparr>sess = logged_out, toasts = [], location = ''/''\<rparr>"
  by (rule login_access_denied [where usr = "JObj [(''role'', JStr ''user'')]"]) (simp_all add: res_ok_def)

text \<open>C29: an ok reply without a user object makes \<open>data.user.role\<close> throw; the catch shows
  the TypeError's message as an error toast, and no session is stored.\<close>

theorem login_missing_user:
  "res_ok status \<Longrightarrow> data \<noteq> JUndef \<Longrightarrow> data \<noteq> JNull \<Longrightarrow> js_prop data ''user'' \<in> {JUndef, JNull} \<Longrightarrow>
   AdminLogin_onSubmit (Reply status data) u =
     showToast ToastError (JStr (''Cannot read properties of '' @ (if js_prop data ''user'' = JUndef then ''undefined'' else ''null'') @ '' (reading 'role')'')) u"
  by (auto simp: AdminLogin_onSubmit_def get_prop_cases)

theorem login_missing_user_witness:
  "AdminLogin_onSubmit (Reply 200 (JObj [(''token'', JStr ''t'')])) \<lparr>sess = logged_out, toasts = [], location = ''/login''\<rparr> =
   showToast ToastError (JStr ''Cannot read properties of undefined (reading 'role')'') \<lparr>sess = logged_out, toasts = [], location = ''/login''\<rparr>"
  using login_missing_user [of 200 "JObj [(''token'', JStr ''t'')]" "\<lparr>sess = logged_out, toasts = [], location = ''/login''\<rparr>"] by (simp add: res_ok_def)

lemma login_errors_Nil: "login_errors v = [] \<longleftrightarrow> loginSchema v"
  by (simp add: login_errors_def loginSchema_def)

text \<open>C31: submitting the login form sends the values to the server exactly when they pass
  the schema; otherwise nothing is sent and the page shows "Invalid email" under an e-mail
  that zod rejects and "Password is required" under a password shorter than three
  characters, and no message under a field that passes.\<close>

theorem login_handleSubmit_view:
  "let (f', u') = login_handleSubmit server \<lparr>lf_values = v, lf_errors = es\<rparr> u in
   u' = login_submit server v u
   \<and> AdminLogin_view f' =
       [Heading ''Admin Login'',
        Field ''Email'' ''text'' ''Enter your email'' (email v)
          (if zod_email (email v) then None else Some ''Invalid email''),
        Field ''Password'' ''password'' ''Enter your password'' (password v)
          (if zod_min 3 (password v) then None else Some ''Password is required''),
        Submit ''Login'']"
  by (simp add: login_handleSubmit_def login_submit_def login_errors_Nil AdminLogin_view_def Let_def)
     (simp add: login_errors_def loginSchema_def)

end
