(* ===== verification/Slugify.thy ===== *)
theory Slugify
  imports Client
begin

text \<open>
  The \<open>slugify\<close> package as the categories page calls it,
  \<open>slugify(categoryName, { lower: true })\<close>, on ASCII input. The package is a library
  the sources only call; it is modelled from its documented algorithm: each character is
  replaced through the character map (of which \<open>$ % & < > |\<close> are the ASCII
  entries), a lone \<open>-\<close> (the replacement) becomes a space, characters outside
  \<open>[\w\s$*_+~.()'"!\-:@]\<close> are removed, the result is trimmed, every run of white
  space becomes one \<open>-\<close>, and the whole is lower-cased.
\<close>

definition js_space :: "char \<Rightarrow> bool" where
  "js_space c \<longleftrightarrow> c = CHR '' '' \<or> ((9::nat) \<le> of_char c \<and> of_char c \<le> (13::nat))"

definition slug_charmap :: "char \<Rightarrow> string option" where
  "slug_charmap c =
     (if c = CHR ''$'' then Some ''dollar'' else if c = CHR ''%'' then Some ''percent''
      else if c = CHR ''&'' then Some ''and'' else if c = CHR ''<'' then Some ''less''
      else if c = CHR ''>'' then Some ''greater'' else if c = CHR ''|'' then Some ''or'' else None)"

definition slug_allowed :: "char \<Rightarrow> bool" where
  "slug_allowed c \<longleftrightarrow> is_alnum c \<or> c = CHR ''_'' \<or> js_space c \<or>
     c \<in> set [CHR ''$'', CHR ''*'', CHR ''+'', CHR ''~'', CHR ''.'', CHR ''('', CHR '')'', CHR 0x27,
              CHR 0x22, CHR ''!'', CHR ''-'', CHR '':'', CHR ''@'']"

definition slug_piece :: "char \<Rightarrow> string" where
  "slug_piece c =
     (let a = (case slug_charmap c of Some t \<Rightarrow> t | None \<Rightarrow> [c]) in
      filter slug_allowed (if a = ''-'' then '' '' else a))"

definition trim_ws :: "string \<Rightarrow> string" where
  "trim_ws s = rev (dropWhile js_space (rev (dropWhile js_space s)))"

text \<open>\<open>replace(/\s+/g, '-')\<close>, scanning with a flag that says whether the previous
  character was white space.\<close>

fun collapse_ws :: "bool \<Rightarrow> string \<Rightarrow> string" where
  "collapse_ws b [] = []"
| "collapse_ws b (c # cs) =
     (if js_space c then (if b then collapse_ws True cs else CHR ''-'' # collapse_ws True cs)
      else c # collapse_ws False cs)"

definition lower_ascii :: "char \<Rightarrow> char" where
  "lower_ascii c = (if CHR ''A'' \<le> c \<and> c \<le> CHR ''Z'' then char_of (of_char c + (32::nat)) else c)"

definition slugify :: "string \<Rightarrow> string" where
  "slugify s = map lower_ascii (collapse_ws False (trim_ws (concat (map slug_piece s))))"

end
