(* ===== verification/Admin_Categories.thy ===== *)
theory Admin_Categories
  imports Slugify
begin

text \<open>
  client/src/pages/AdminCategories.jsx. The page reads the session; when the user is not
  a logged-in admin it renders a redirect to \<open>/\<close> and returns before calling its other
  hooks. Otherwise it keeps a form of two fields checked by a zod schema, an effect that
  sets the slug to \<open>slugify(name, { lower: true })\<close> whenever the name changes to a
  non-empty value, the list of categories fetched from \<open>/category/all-category\<close> on
  mount and after each successful add, and renders the list. A page state is the form,
  the \<open>categories\<close> state (a JavaScript value: the page stores whatever the server's
  \<open>data.category || data.categories || []\<close> is) and the shared UI state. The server
  replies are parameters of the handlers: the root theory feeds them from the router.
\<close>

section \<open>State\<close>

record cat_form =
  form_name :: string
  form_slug :: string

record cat_page =
  pform :: cat_form
  categories :: json
  page_ui :: ui

definition empty_form :: cat_form where
  "empty_form = \<lparr>form_name = [], form_slug = []\<rparr>"

definition toast_page :: "toast_kind \<Rightarrow> json \<Rightarrow> cat_page \<Rightarrow> cat_page" where
  "toast_page k m p = p\<lparr>page_ui := showToast k m (page_ui p)\<rparr>"

section \<open>The admin guard and the hooks it skips\<close>

text \<open>\<open>!user.isLoggedIn || user.user.role !== 'admin'\<close> (line 24): \<open>Inr True\<close> when the
  page redirects; reading \<open>role\<close> of a missing user throws.\<close>

definition AdminCategories_redirects :: "session \<Rightarrow> js_error + bool" where
  "AdminCategories_redirects s =
     (if \<not> isLoggedIn s then Inr True
      else (case get_prop (user s) ''role'' of
              Inl e \<Rightarrow> Inl e
            | Inr role \<Rightarrow> Inr (role \<noteq> JStr ''admin'')))"

datatype hook = UseSelector | UseState | UseForm | UseEffect

text \<open>The hooks one render calls, in order (lines 21--47): the early return sits between
  \<open>useState\<close> and \<open>useForm\<close>.\<close>

definition AdminCategories_hooks :: "session \<Rightarrow> hook list" where
  "AdminCategories_hooks s =
     [UseSelector, UseState] @
     (if AdminCategories_redirects s = Inr False then [UseForm, UseEffect, UseEffect] else [])"

section \<open>The form\<close>

definition categorySchema :: "cat_form \<Rightarrow> bool" where
  "categorySchema f \<longleftrightarrow> zod_min 3 (form_name f) \<and> zod_min 3 (form_slug f)"

definition category_body :: "cat_form \<Rightarrow> json" where
  "category_body f = JObj [(''name'', JStr (form_name f)), (''slug'', JStr (form_slug f))]"

text \<open>The effect on \<open>categoryName\<close> (lines 38--43).\<close>

definition slug_effect :: "cat_form \<Rightarrow> cat_form" where
  "slug_effect f = (if form_name f \<noteq> [] then f\<lparr>form_slug := slugify (form_name f)\<rparr> else f)"

text \<open>Typing in the name field: the field's value changes, and when it changed the effect
  runs after the render. Typing in the slug field only sets the slug.\<close>

definition type_name :: "string \<Rightarrow> cat_form \<Rightarrow> cat_form" where
  "type_name v f = (if v = form_name f then f else slug_effect (f\<lparr>form_name := v\<rparr>))"

definition type_slug :: "string \<Rightarrow> cat_form \<Rightarrow> cat_form" where
  "type_slug v f = f\<lparr>form_slug := v\<rparr>"

section \<open>Fetching and submitting\<close>

text \<open>\<open>fetchCategories\<close> (lines 49--61).\<close>

definition fetchCategories :: "fetch_result \<Rightarrow> cat_page \<Rightarrow> cat_page" where
  "fetchCategories r p =
     (case r of
        NetworkFailure m \<Rightarrow> toast_page ToastError (JStr m) p
      | BadJson \<Rightarrow> toast_page ToastError (JStr bad_json_message) p
      | Reply status data \<Rightarrow>
          (if res_ok status then
             (case get_prop data ''category'' of
                Inl e \<Rightarrow> toast_page ToastError (JStr (error_message e)) p
              | Inr c \<Rightarrow> p\<lparr>categories := js_or (js_or c (js_prop data ''categories'')) (JArr [])\<rparr>)
           else
             (case get_prop data ''message'' of
                Inl e \<Rightarrow> toast_page ToastError (JStr (error_message e)) p
              | Inr m \<Rightarrow> toast_page ToastError (js_or m (JStr ''Failed to load categories'')) p)))"

text \<open>\<open>onSubmit\<close> (lines 63--80), given the reply to the POST and the reply to the
  \<open>fetchCategories()\<close> it starts after a success.\<close>

definition AdminCategories_onSubmit :: "fetch_result \<Rightarrow> fetch_result \<Rightarrow> cat_page \<Rightarrow> cat_page" where
  "AdminCategories_onSubmit r_add r_list p =
     (case r_add of
        NetworkFailure m \<Rightarrow> toast_page ToastError (JStr m) p
      | BadJson \<Rightarrow> toast_page ToastError (JStr bad_json_message) p
      | Reply status data \<Rightarrow>
          (case get_prop data ''message'' of
             Inl e \<Rightarrow> toast_page ToastError (JStr (error_message e)) p
           | Inr m \<Rightarrow>
              (if \<not> res_ok status then toast_page ToastError m p
               else fetchCategories r_list ((toast_page ToastSuccess m p)\<lparr>pform := empty_form\<rparr>))))"

section \<open>Rendering the list\<close>

text \<open>What React renders for \<open>{value}\<close>: a string as is, a number printed, nothing for
  \<open>null\<close>, \<open>undefined\<close> and booleans.\<close>

definition render_text :: "json \<Rightarrow> string" where
  "render_text v = (case v of JStr s \<Rightarrow> s | JNum n \<Rightarrow> int_str n | _ \<Rightarrow> [])"

text \<open>The list items (lines 122--127): "No categories found." for an empty array, one
  item \<open>name (slug)\<close> per element otherwise. Reading \<open>categories.length\<close> of
  \<open>undefined\<close> or \<open>null\<close> throws, \<open>.map\<close> on any other non-array throws, and so does
  reading \<open>cat._id\<close> of the first null or undefined element. Names and slugs are
  rendered by \<open>render_text\<close>, which covers the primitive values the server sends.\<close>

definition category_items :: "json \<Rightarrow> js_error + string list" where
  "category_items cs =
     (case cs of
        JArr [] \<Rightarrow> Inr [''No categories found.'']
      | JArr xs \<Rightarrow>
          (case find (\<lambda>c. c = JUndef \<or> c = JNull) xs of
             Some c \<Rightarrow> Inl (TypeError (if c = JUndef then ''undefined'' else ''null'') ''_id'')
           | None \<Rightarrow> Inr (map (\<lambda>c. render_text (js_prop c ''name'') @ '' ('' @ render_text (js_prop c ''slug'') @ '')'') xs))
      | JUndef \<Rightarrow> Inl (TypeError ''undefined'' ''length'')
      | JNull \<Rightarrow> Inl (TypeError ''null'' ''length'')
      | _ \<Rightarrow> Inl (NotAFunction ''categories.map''))"

section \<open>The rendered page\<close>

text \<open>The messages the resolver reports for a form that fails the schema (lines 15--18).\<close>

definition category_errors :: "cat_form \<Rightarrow> (string \<times> string) list" where
  "category_errors f =
     (if zod_min 3 (form_name f) then [] else [(''name'', ''Name must be at least 3 characters long'')]) @
     (if zod_min 3 (form_slug f) then [] else [(''slug'', ''Slug must be at least 3 characters long'')])"

text \<open>The render (lines 24--26 and 82--133): the redirect for a session that is not an
  admin's; otherwise the heading, the two fields with their messages, the button, and the
  list. Reading the role of a missing user, or rendering a list that throws, throws.\<close>

definition AdminCategories_view :: "session \<Rightarrow> cat_page \<Rightarrow> (string \<times> string) list \<Rightarrow> js_error + view list" where
  "AdminCategories_view s p errs =
     (case AdminCategories_redirects s of
        Inl e \<Rightarrow> Inl e
      | Inr True \<Rightarrow> Inr [Navigate ''/'']
      | Inr False \<Rightarrow>
          (case category_items (categories p) of
             Inl e \<Rightarrow> Inl e
           | Inr items \<Rightarrow>
               Inr [Heading ''Manage Categories'',
                    Field ''Name'' ''text'' ''Category name'' (form_name (pform p)) (map_of errs ''name''),
                    Field ''Slug'' ''text'' ''Slug'' (form_slug (pform p)) (map_of errs ''slug''),
                    Submit ''Add Category'', Heading ''Existing Categories'', Items items]))"

section \<open>Properties\<close>

text \<open>C17: typing a non-empty new name sets the slug to \<open>slugify\<close> of it; the slug field
  stays editable on its own; clearing the name leaves the old slug in place.\<close>

theorem slug_follows_name:
  "(v \<noteq> [] \<and> v \<noteq> form_name f \<longrightarrow> type_name v f = f\<lparr>form_name := v, form_slug := slugify v\<rparr>)
   \<and> type_slug w f = f\<lparr>form_slug := w\<rparr>
   \<and> (form_name f \<noteq> [] \<longrightarrow> type_name [] f = f\<lparr>form_name := []\<rparr>)"
  by (simp add: type_name_def type_slug_def slug_effect_def)

theorem slug_follows_name_witness:
  "type_name ''Tech News'' empty_form = empty_form\<lparr>form_name := ''Tech News'', form_slug := slugify ''Tech News''\<rparr>"
  using slug_follows_name [of "''Tech News''" empty_form] by (simp add: empty_form_def)

text \<open>C18: after typing a new non-empty name, the form passes the schema exactly when the
  name and its slugification both have at least three characters: the slug field no
  longer decides, the effect has replaced it. As slugify drops characters, a name that
  passes its own check can leave a slug that fails (typing ??? over a valid form makes it
  invalid), and the form cannot be submitted until the slug is typed by hand.\<close>

theorem auto_slug_schema:
  "v \<noteq> [] \<Longrightarrow> v \<noteq> form_name f \<Longrightarrow>
   categorySchema (type_name v f) \<longleftrightarrow> zod_min 3 v \<and> zod_min 3 (slugify v)"
  by (simp add: type_name_def slug_effect_def categorySchema_def)

theorem auto_slug_schema_witness:
  "categorySchema \<lparr>form_name = ''Tech'', form_slug = ''tech''\<rparr> \<and> zod_min 3 ''???'' \<and> \<not> categorySchema (type_name ''???'' \<lparr>form_name = ''Tech'', form_slug = ''tech''\<rparr>)"
proof -
  have "slugify ''???'' = []"
    by (simp add: slugify_def slug_piece_def slug_charmap_def slug_allowed_def is_alnum_def is_letter_def
        is_digit_def js_space_def trim_ws_def)
  then show ?thesis
    using auto_slug_schema [of "''???''" "\<lparr>form_name = ''Tech'', form_slug = ''tech''\<rparr>"] by (simp add: categorySchema_def zod_min_def)
qed

lemma fetchCategories_list:
  "fetchCategories (Reply 200 (JObj [(''category'', JArr xs)])) p = p\<lparr>categories := JArr xs\<rparr>"
  by (simp add: fetchCategories_def res_ok_def get_prop_def js_or_def)

lemma category_errors_Nil: "category_errors f = [] \<longleftrightarrow> categorySchema f"
  by (simp add: category_errors_def categorySchema_def)

lemma categorySchema_nonempty: "categorySchema f \<Longrightarrow> form_name f \<noteq> [] \<and> form_slug f \<noteq> []"
  by (auto simp: categorySchema_def zod_min_def)

end
