(* ===== verification/Config.thy ===== *)
theory Config
  imports Js_Values
begin

text \<open>
  The two configuration modules. api/config/cloudinary.js reads three variables of
  \<open>process.env\<close> (after \<open>dotenv.config()\<close>), throws when any of them is missing or empty,
  and otherwise passes them to \<open>cloudinary.config\<close>; loading the module is modelled as
  the configuration it passes or the message of the error it throws.
  client/src/helpers/firebase.js builds the Firebase configuration object from one
  variable of the client's environment, read by \<open>getEvn\<close> (helpers/getEnv.js, not among
  the sources: it returns \<open>import.meta.env[name]\<close>, undefined when unset), and five
  constants, initialises the app with it, and exports the app's \<open>Auth\<close> instance and a
  Google provider. Of the SDK, the model keeps what decides whether loading the module
  succeeds: \<open>initializeApp\<close> keeps the options, and \<open>getAuth\<close> asserts
  \<open>apiKey && !apiKey.includes(':')\<close>, throwing \<open>auth/invalid-api-key\<close> otherwise.
  An environment maps a variable name to its string value; \<open>dotenv.config()\<close> adds
  the variables of the \<open>.env\<close> file that the process environment does not set.
\<close>

type_synonym env = "string \<Rightarrow> string option"

definition env_val :: "env \<Rightarrow> string \<Rightarrow> json" where
  "env_val e k = (case e k of None \<Rightarrow> JUndef | Some v \<Rightarrow> JStr v)"

text \<open>\<open>dotenv.config()\<close>: a variable already set in the process environment keeps its
  value; the others take the file's.\<close>

definition dotenv_config :: "env \<Rightarrow> env \<Rightarrow> env" where
  "dotenv_config file proc = (\<lambda>k. case proc k of Some v \<Rightarrow> Some v | None \<Rightarrow> file k)"

section \<open>Cloudinary\<close>

record cloudinary_config =
  cloud_name :: string
  api_key :: string
  api_secret :: string

definition cloudinary_error :: string where
  "cloudinary_error = ''Cloudinary environment variables are not set properly.''"

text \<open>Lines 5--16: the destructuring of \<open>process.env\<close>, the check and the call to
  \<open>cloudinary.config\<close>.\<close>

definition cloudinary_module :: "env \<Rightarrow> string + cloudinary_config" where
  "cloudinary_module e =
     (let a = env_val e ''CLOUDINARY_APP_NAME''; k = env_val e ''CLOUDINARY_API_KEY'';
          s = env_val e ''CLOUDINARY_API_SECRET'' in
      if \<not> truthy a \<or> \<not> truthy k \<or> \<not> truthy s then Inl cloudinary_error
      else Inr \<lparr>cloud_name = the (e ''CLOUDINARY_APP_NAME''), api_key = the (e ''CLOUDINARY_API_KEY''),
                api_secret = the (e ''CLOUDINARY_API_SECRET'')\<rparr>)"

text \<open>The module (lines 1--18): \<open>dotenv.config()\<close> on the process environment, then the
  body; the export is the configured SDK.\<close>

definition cloudinary_load :: "env \<Rightarrow> env \<Rightarrow> string + cloudinary_config" where
  "cloudinary_load proc file = cloudinary_module (dotenv_config file proc)"

section \<open>Firebase\<close>

definition getEvn :: "env \<Rightarrow> string \<Rightarrow> json" where
  "getEvn e k = env_val e k"

text \<open>\<open>firebaseConfig\<close> (lines 10--17).\<close>

definition firebaseConfig :: "env \<Rightarrow> json" where
  "firebaseConfig e =
     JObj [(''apiKey'', getEvn e ''VITE_FIREBASE_API''),
           (''authDomain'', JStr ''digisoch-blog.firebaseapp.com''),
           (''projectId'', JStr ''digisoch-blog''),
           (''storageBucket'', JStr ''digisoch-blog.firebasestorage.app''),
           (''messagingSenderId'', JStr ''140660941569''),
           (''appId'', JStr ''1:140660941569:web:ef5fb12ca989a11c8f3100'')]"

record firebase_exports =
  auth_app_options :: json
  provider_id :: string

definition firebase_invalid_api_key :: string where
  "firebase_invalid_api_key = ''Firebase: Error (auth/invalid-api-key).''"

text \<open>The module (lines 1--24): the configuration, \<open>initializeApp\<close>, \<open>getAuth\<close> with its
  assertion on the API key, and \<open>new GoogleAuthProvider()\<close>.\<close>

definition firebase_module :: "env \<Rightarrow> string + firebase_exports" where
  "firebase_module e =
     (let cfg = firebaseConfig e in
      case js_prop cfg ''apiKey'' of
        JStr k \<Rightarrow>
          (if k \<noteq> [] \<and> CHR '':'' \<notin> set k
           then Inr \<lparr>auth_app_options = cfg, provider_id = ''google.com''\<rparr>
           else Inl firebase_invalid_api_key)
      | _ \<Rightarrow> Inl firebase_invalid_api_key)"

section \<open>Properties\<close>

lemma cloudinary_module_cases:
  "cloudinary_module e =
     (case (e ''CLOUDINARY_APP_NAME'', e ''CLOUDINARY_API_KEY'', e ''CLOUDINARY_API_SECRET'') of
        (Some a, Some k, Some s) \<Rightarrow>
          if a \<noteq> [] \<and> k \<noteq> [] \<and> s \<noteq> [] then Inr \<lparr>cloud_name = a, api_key = k, api_secret = s\<rparr>
          else Inl cloudinary_error
      | _ \<Rightarrow> Inl cloudinary_error)"
  by (simp add: cloudinary_module_def env_val_def Let_def split: option.split)

text \<open>C24: loading the Cloudinary module succeeds exactly when the three variables are
  set to non-empty strings, and then configures the SDK with exactly those values;
  otherwise it throws "Cloudinary environment variables are not set properly.". Since
  \<open>dotenv\<close> never overrides a variable the process sets, a variable set to the empty
  string in the process environment makes loading throw whatever the .env file holds.\<close>

theorem cloudinary_env_check:
  "(cloudinary_module e = Inr cfg \<longleftrightarrow>
      e ''CLOUDINARY_APP_NAME'' = Some (cloud_name cfg) \<and> cloud_name cfg \<noteq> []
    \<and> e ''CLOUDINARY_API_KEY'' = Some (api_key cfg) \<and> api_key cfg \<noteq> []
    \<and> e ''CLOUDINARY_API_SECRET'' = Some (api_secret cfg) \<and> api_secret cfg \<noteq> [])
   \<and> (cloudinary_module e = Inl m \<longleftrightarrow> m = cloudinary_error \<and>
      (e ''CLOUDINARY_APP_NAME'' \<in> {None, Some []} \<or> e ''CLOUDINARY_API_KEY'' \<in> {None, Some []}
       \<or> e ''CLOUDINARY_API_SECRET'' \<in> {None, Some []}))
   \<and> (proc ''CLOUDINARY_APP_NAME'' = Some [] \<longrightarrow> cloudinary_load proc file = Inl cloudinary_error)"
proof -
  have "(cloudinary_module e = Inr cfg \<longleftrightarrow>
      e ''CLOUDINARY_APP_NAME'' = Some (cloud_name cfg) \<and> cloud_name cfg \<noteq> []
    \<and> e ''CLOUDINARY_API_KEY'' = Some (api_key cfg) \<and> api_key cfg \<noteq> []
    \<and> e ''CLOUDINARY_API_SECRET'' = Some (api_secret cfg) \<and> api_secret cfg \<noteq> [])
   \<and> (cloudinary_module e = Inl m \<longleftrightarrow> m = cloudinary_error \<and>
      (e ''CLOUDINARY_APP_NAME'' \<in> {None, Some []} \<or> e ''CLOUDINARY_API_KEY'' \<in> {None, Some []}
       \<or> e ''CLOUDINARY_API_SECRET'' \<in> {None, Some []}))"
    unfolding cloudinary_module_cases
    by (cases cfg) (auto split: option.split)
  moreover have "proc ''CLOUDINARY_APP_NAME'' = Some [] \<longrightarrow> cloudinary_load proc file = Inl cloudinary_error"
    by (auto simp: cloudinary_load_def dotenv_config_def cloudinary_module_cases split: option.split)
  ultimately show ?thesis
    by blast
qed

theorem cloudinary_env_check_witness:
  "cloudinary_load (\<lambda>k. if k = ''CLOUDINARY_APP_NAME'' then Some [] else None)
     (\<lambda>k. Some ''from-dotenv'') = Inl cloudinary_error"
  using cloudinary_env_check [of "\<lambda>k. Some ''from-dotenv''" _ _ "\<lambda>k. if k = ''CLOUDINARY_APP_NAME'' then Some [] else None"
      "\<lambda>k. Some ''from-dotenv''"]
  by simp

text \<open>C25: loading the Firebase module succeeds exactly when VITE_FIREBASE_API is a
  non-empty string without a colon; the exported Auth instance then carries the built
  configuration with that key. Otherwise the module does not check the variable itself:
  the configuration is built with whatever \<open>getEvn\<close> returned, and \<open>getAuth\<close> throws
  the SDK's "auth/invalid-api-key" while the module loads.\<close>

theorem firebase_module_api_key:
  "(firebase_module e = Inr x \<longleftrightarrow>
      (\<exists>k. e ''VITE_FIREBASE_API'' = Some k \<and> k \<noteq> [] \<and> CHR '':'' \<notin> set k
           \<and> x = \<lparr>auth_app_options = firebaseConfig e, provider_id = ''google.com''\<rparr>))
   \<and> (firebase_module e = Inl m \<longleftrightarrow> m = firebase_invalid_api_key \<and>
      \<not> (\<exists>k. e ''VITE_FIREBASE_API'' = Some k \<and> k \<noteq> [] \<and> CHR '':'' \<notin> set k))"
  by (auto simp: firebase_module_def firebaseConfig_def getEvn_def env_val_def Let_def
      split: option.splits)

theorem firebase_module_api_key_witness:
  "firebase_module (\<lambda>_. None) = Inl firebase_invalid_api_key
   \<and> firebase_module (\<lambda>k. if k = ''VITE_FIREBASE_API'' then Some ''AIzaSy'' else None) =
       Inr \<lparr>auth_app_options = firebaseConfig (\<lambda>k. if k = ''VITE_FIREBASE_API'' then Some ''AIzaSy'' else None),
            provider_id = ''google.com''\<rparr>"
  using firebase_module_api_key [of "\<lambda>_. None" _ firebase_invalid_api_key]
    firebase_module_api_key [of "\<lambda>k. if k = ''VITE_FIREBASE_API'' then Some ''AIzaSy'' else None"
      "\<lparr>auth_app_options = firebaseConfig (\<lambda>k. if k = ''VITE_FIREBASE_API'' then Some ''AIzaSy'' else None),
            provider_id = ''google.com''\<rparr>"]
  by simp

end
