(* ===== verification/Concurrency.thy ===== *)
theory Concurrency
  imports Category_Controller
begin

text \<open>
  Node runs the handlers of concurrent requests on one thread and switches between them
  only at an \<open>await\<close>. \<open>addCategory\<close> awaits twice: the slug lookup
  (\<open>Category.findOne\<close>, line 10) and the insert (\<open>category.save()\<close>, line 16). Each
  database operation runs atomically in the database, so a request to add is two atomic
  segments: \<open>add_find\<close>, the guard and the lookup with the 400/409 answers (lines 5--13),
  and \<open>add_save\<close>, the new document, its insert and the 201 answer (lines 15--18), each
  inside the handler's \<open>try\<close>/\<open>catch\<close> (lines 19--22). A request in flight is its body,
  the segment it runs next and its response. \<open>conc_step\<close> lets any unfinished request run
  its next segment; \<open>run_schedule\<close> runs an explicit interleaving. The split is the
  handler (\<open>add_segments_serial\<close>: a request alone answers as \<open>serve (addCategory b)\<close>),
  and the lookup-then-insert race lets two interleaved adds of one slug both pass the
  check (C26).
\<close>

section \<open>The add handler between its awaits\<close>

definition add_find :: "json \<Rightarrow> (store, bool) exec" where
  "add_find body =
     try_catch
       (let name = js_prop body ''name''; slug = js_prop body ''slug'' in
        if \<not> truthy name \<or> \<not> truthy slug
        then bind_e (send 400 (msg_json ''Name and slug are required.'')) (\<lambda>_. ret False)
        else
          bind_e (db_call (find_one_slug slug)) (\<lambda>existingCategory.
          if existingCategory \<noteq> None
          then bind_e (send 409 (msg_json ''Category slug already exists.'')) (\<lambda>_. ret False)
          else ret True))
       (\<lambda>error. bind_e (send 500 (internal_error error)) (\<lambda>_. ret False))"

definition add_save :: "json \<Rightarrow> (store, unit) exec" where
  "add_save body =
     try_catch
       (let name = js_prop body ''name''; slug = js_prop body ''slug'' in
        bind_e (db_call (new_category name slug)) (\<lambda>doc.
        bind_e (db_call (save_category doc)) (\<lambda>category.
        send 201 (JObj [(''message'', JStr ''Category added successfully.''),
                        (''category'', category_json category)]))))
       (\<lambda>error. send 500 (internal_error error))"

datatype add_phase = AddStart | AddAwaitSave | AddDone

record add_req =
  req_body :: json
  req_phase :: add_phase
  req_res :: http_res

definition new_req :: "json \<Rightarrow> add_req" where
  "new_req b = \<lparr>req_body = b, req_phase = AddStart, req_res = res0\<rparr>"

definition log_uncaught :: "js_error + 'a \<Rightarrow> http_res \<Rightarrow> http_res" where
  "log_uncaught r res = (case r of Inl e \<Rightarrow> res\<lparr>res_log := res_log res @ [e]\<rparr> | Inr _ \<Rightarrow> res)"

definition req_step :: "add_req \<Rightarrow> store \<Rightarrow> add_req \<times> store" where
  "req_step q st =
     (case req_phase q of
        AddStart \<Rightarrow>
          (case add_find (req_body q) (st, req_res q) of
             (r, st', res') \<Rightarrow>
               (q\<lparr>req_phase := (if r = Inr True then AddAwaitSave else AddDone),
                  req_res := log_uncaught r res'\<rparr>, st'))
      | AddAwaitSave \<Rightarrow>
          (case add_save (req_body q) (st, req_res q) of
             (r, st', res') \<Rightarrow> (q\<lparr>req_phase := AddDone, req_res := log_uncaught r res'\<rparr>, st'))
      | AddDone \<Rightarrow> (q, st))"

text \<open>Requests in flight: the store and the requests, of which any one that has not
  finished may run its next segment.\<close>

inductive conc_step :: "store \<times> add_req list \<Rightarrow> store \<times> add_req list \<Rightarrow> bool" where
  run_one: "i < length qs \<Longrightarrow> req_phase (qs ! i) \<noteq> AddDone \<Longrightarrow> req_step (qs ! i) st = (q', st') \<Longrightarrow>
            conc_step (st, qs) (st', qs[i := q'])"

text \<open>A schedule: the indices of the requests in the order their segments run.\<close>

fun run_schedule :: "nat list \<Rightarrow> store \<times> add_req list \<Rightarrow> store \<times> add_req list" where
  "run_schedule [] s = s"
| "run_schedule (i # is) (st, qs) =
     (if i < length qs \<and> req_phase (qs ! i) \<noteq> AddDone
      then (case req_step (qs ! i) st of (q', st') \<Rightarrow> run_schedule is (st', qs[i := q']))
      else run_schedule is (st, qs))"

section \<open>Lemmas\<close>

lemma run_schedule_conc: "conc_step\<^sup>*\<^sup>* s (run_schedule sch s)"
proof (induction sch s rule: run_schedule.induct)
  case (2 i sch st qs)
  show ?case
  proof (cases "i < length qs \<and> req_phase (qs ! i) \<noteq> AddDone")
    case True
    obtain q' st' where r: "req_step (qs ! i) st = (q', st')"
      by (cases "req_step (qs ! i) st")
    with True have "conc_step (st, qs) (st', qs[i := q'])"
      by (auto intro: conc_step.run_one)
    with True r 2(1) show ?thesis
      by (simp add: converse_rtranclp_into_rtranclp)
  next
    case False
    then have "run_schedule (i # sch) (st, qs) = run_schedule sch (st, qs)"
      by (simp only: run_schedule.simps False if_False)
    with 2(2) [OF False] show ?thesis by simp
  qed
qed simp

text \<open>Running the two segments of one request back to back is the handler: the request
  finishes in two steps with the store and the response of \<open>addCategory\<close>.\<close>

lemma add_segments_serial:
  "let (q1, st1) = req_step (new_req body) st; (q2, st2) = req_step q1 st1 in
   req_phase q2 = AddDone \<and> (st2, req_res q2) = serve (addCategory body) st"
  by (simp add: req_step_def new_req_def add_find_def add_save_def serve_def addCategory_def handler_defs
      log_uncaught_def internal_error_def Let_def split: sum.splits option.splits prod.splits)

text \<open>C26: two requests adding the same slug from an empty collection. Run one after
  the other, the second is answered 409 and one document is stored. Interleaved (both
  lookups before both inserts), both lookups find nothing: without the unique index both
  are answered 201 and two documents with that slug are stored; with it the second insert
  fails and is answered 500.\<close>

theorem race_outcome:
  "let b = JObj [(''name'', JStr ''Tech News''), (''slug'', JStr ''tech-news'')];
       s0 = (empty_store idx, [new_req b, new_req b]);
       s1 = run_schedule [0, 1, 0, 1] s0;
       s2 = run_schedule [0, 0, 1, 1] s0 in
   conc_step\<^sup>*\<^sup>* s0 s1 \<and> conc_step\<^sup>*\<^sup>* s0 s2
   \<and> map (\<lambda>q. map_option fst (res_sent (req_res q))) (snd s1) = [Some 201, Some (if idx then 500 else 201)]
   \<and> map cat_slug (cats (fst s1)) = (if idx then [Some ''tech-news''] else [Some ''tech-news'', Some ''tech-news''])
   \<and> map (\<lambda>q. map_option fst (res_sent (req_res q))) (snd s2) = [Some 201, Some 409]
   \<and> map cat_slug (cats (fst s2)) = [Some ''tech-news'']"
  unfolding Let_def
  by (cases idx; intro conjI run_schedule_conc;
      simp add: Let_def req_step_def new_req_def add_find_def add_save_def handler_defs empty_store_def
      find_one_slug_def new_category_def save_category_def required_str_def res0_def res_json_def
      log_uncaught_def)


end
