(* ===== verification/Spec2Isabelle.thy ===== *)
theory Spec2Isabelle
  imports Category_Route Category_Abstract Category_Runs Admin_Login Admin_Categories Config Concurrency
begin

text \<open>
  A verification development of the DigiSoch blog's category subsystem: the Express API
  that stores categories (src/api), the two admin pages of the React client that use it
  (src/client/src/pages) and the two configuration modules. A JavaScript value is
  \<^typ>\<open>json\<close>; every exception and every early return of the sources is a branch of a
  sum or an option; loops are structural recursion, so every function of the model is
  total and executable.

  \<^bold>\<open>Parts and theories.\<close>
  \<^item> \<open>Prelude\<close>: the lemma collections and the list lemmas the components share.
  \<^item> \<open>Js_Values\<close>: JavaScript values, property access (\<open>get_prop\<close> throws a TypeError
    on undefined and null), truthiness, \<open>||\<close>, the error values and their messages.
  \<^item> \<open>Express\<close>: the write-once response, \<open>handleError\<close> and the error middleware
    (api/helpers and api/index.js, modelled from the specification), and the handler
    combinators: an exception-and-state monad over the store and the response.
  \<^item> \<open>Category_Store\<close>: the mongoose model and the collection (not among the sources;
    modelled from the specification): documents in natural order, an ObjectId counter,
    an optional unique index on slug; \<open>findOne\<close> with mongoose's casting of query
    values (an array is \<open>$in\<close>, an object with \<open>$\<close> keys a set of operators),
    \<open>save\<close>, \<open>findById\<close>, \<open>findByIdAndUpdate\<close>, \<open>findByIdAndDelete\<close>, \<open>find()\<close>
    with the controller's \<open>.sort({ name: 1 })\<close>, ObjectId printing and casting (24 hex
    digits, as bson 5 and later accept), and the abstract map \<open>cat_map\<close> from ids to
    fields.
  \<^item> \<open>Category_Controller\<close>: api/controllers/Category.controller.js, one definition per
    handler (\<open>addCategory\<close> \<dots> \<open>getAllCategory\<close>); \<open>serve\<close> runs one request on a fresh
    response; \<open>reachable\<close> and \<open>reachable_by\<close> are the stores reachable from an empty
    collection by serving any requests, or only those a filter admits. Lemmas
    \<open>serve_*\<close> give each handler's store and response on every branch; the claims give
    the functional behaviour, the errors, the slug invariant that the add handler's check
    maintains on its own (by rule induction), and the defects (the double response of
    show, duplicate slugs by update, operator objects as slugs). The request body is an
    object or an array, as \<open>express.json()\<close> in its default strict mode delivers it.
  \<^item> \<open>Category_Abstract\<close>: the service's contract on the abstract map from ids to
    (name, slug) and the refinement lemma that every handler meets it.
  \<^item> \<open>Category_Runs\<close>: the responses against the interface table: every request is
    answered once with a status of its operation's row and an object body.
  \<^item> \<open>Category_Route\<close>: api/routes/Category.route.js as Express 4 matches it, the
    \<open>/category\<close> mount and the 404 fall-through (\<open>serve_http\<close>).
  \<^item> \<open>Concurrency\<close>: \<open>addCategory\<close> split at its two awaits, any interleaving of
    requests in flight (\<open>conc_step\<close>) and explicit schedules (\<open>run_schedule\<close>): the split
    equals the handler, and the lookup-then-insert race lets interleaved adds of one slug
    both pass the check.
  \<^item> \<open>Client\<close>, \<open>Slugify\<close>: what the pages share (session, toasts, location, fetch
    outcomes, zod's \<open>min\<close> and \<open>email\<close>) and the \<open>slugify\<close> library on ASCII input.
  \<^item> \<open>Admin_Login\<close>: AdminLogin.jsx, against any login server given as a function,
    with \<open>handleSubmit\<close>, the resolver's messages and the rendered form (a list of
    \<open>view\<close> elements of \<open>Client\<close>).
  \<^item> \<open>Admin_Categories\<close>: AdminCategories.jsx: the guard and the hooks it skips (the
    early return at line 24 sits between \<open>useState\<close> and \<open>useForm\<close>), the
    form and its slug effect, \<open>fetchCategories\<close>, \<open>onSubmit\<close>, the list rendering and
    the rendered page.
  \<^item> \<open>Config\<close>: api/config/cloudinary.js with \<open>dotenv\<close>'s loading, and
    client/src/helpers/firebase.js with the API-key assertion of \<open>getAuth\<close>.
  \<^item> This theory composes the client with the server: \<open>mount_categories\<close> and
    \<open>submit_category\<close> send the page's requests through \<open>serve_http\<close> and feed the
    replies to the page's handlers (in the order they are sent, or, for C19, in another
    order), and it holds the properties that span components.

  \<^bold>\<open>Bounds.\<close> ObjectIds are the naturals below \<open>16 ^ 24\<close>, printed as 24 hex
  digits; the round trip through the printed id (C5, C11) assumes the id is below that
  bound, which the counter of a collection with fewer than \<open>16 ^ 24\<close> inserts respects.
  No definition uses fuel: every function is structurally recursive, and concurrent runs
  are explicit schedules or the step relation.

  \<^bold>\<open>Not modelled.\<close> Styling and layout (the pages are modelled as the elements they
  render), react-hook-form's revalidation while typing after a failed submit, the UI
  component library, the Firebase SDK beyond what decides whether the client module loads
  (\<open>getAuth\<close>'s assertion on the API key), the Cloudinary SDK beyond its configuration,
  the login endpoint (a parameter of the login page), network timing beyond the order of
  requests, percent-decoding of path parameters, \<open>slugify\<close> on non-ASCII input, the
  query operators \<open>$regex $options $type $all $not\<close>, the schema's own options beyond
  \<open>required\<close> (category.model.js is not among the sources), and bodies that are not
  objects or arrays, which \<open>express.json()\<close> rejects before the router.
\<close>

section \<open>The admin page against the server\<close>

text \<open>A response as the page's \<open>fetch\<close> receives it. Every handler of the model writes
  a response, so the branch without one is not reached from the router.\<close>

definition fetch_of :: "http_res \<Rightarrow> fetch_result" where
  "fetch_of r = (case res_sent r of Some (c, b) \<Rightarrow> Reply c b | None \<Rightarrow> NetworkFailure ''Failed to fetch'')"

text \<open>Mounting AdminCategories: the effect that calls \<open>fetchCategories()\<close> sends
  GET /category/all-category and stores what the reply carries.\<close>

definition mount_categories :: "store \<Rightarrow> cat_page \<Rightarrow> store \<times> cat_page" where
  "mount_categories st p =
     (let (st1, r) = serve_http st GET ''/category/all-category'' JNull in (st1, fetchCategories (fetch_of r) p))"

text \<open>Submitting the category form: \<open>handleSubmit\<close> calls \<open>onSubmit\<close> only on values
  that pass the schema; \<open>onSubmit\<close> posts the form to /category/add and, after an ok
  reply, calls \<open>fetchCategories()\<close>, which sends GET /category/all-category.\<close>

definition submit_category :: "store \<Rightarrow> cat_page \<Rightarrow> store \<times> cat_page" where
  "submit_category st p =
     (if \<not> categorySchema (pform p) then (st, p)
      else let (st1, r1) = serve_http st POST ''/category/add'' (category_body (pform p)) in
        (case fetch_of r1 of
           Reply c b \<Rightarrow>
             (if res_ok c then
                let (st2, r2) = serve_http st1 GET ''/category/all-category'' JNull in
                (st2, AdminCategories_onSubmit (fetch_of r1) (fetch_of r2) p)
              else (st1, AdminCategories_onSubmit (fetch_of r1) (fetch_of r1) p))
         | _ \<Rightarrow> (st1, AdminCategories_onSubmit (fetch_of r1) (fetch_of r1) p)))"

text \<open>\<open>form.handleSubmit(onSubmit)\<close> on the categories page (line 88): the resolver's
  messages are kept for the fields, and the form is submitted only when there are none.\<close>

definition category_handleSubmit :: "store \<Rightarrow> cat_page \<Rightarrow> (string \<times> string) list \<times> store \<times> cat_page" where
  "category_handleSubmit st p =
     (let errs = category_errors (pform p) in if errs = [] then ([], submit_category st p) else (errs, st, p))"

section \<open>Properties across the handlers\<close>

text \<open>C5: after a successful add, GET /category/show/:id with the new id answers 200 with
  the created category, and GET /category/all-category lists it exactly once.\<close>

theorem add_then_show_and_list:
  assumes "js_prop body ''name'' = JStr n" "js_prop body ''slug'' = JStr s" "n \<noteq> []" "s \<noteq> []"
    and "Some s \<notin> cat_slug ` set (cats st)" "store_wf st" "next_oid st < 16 ^ 24"
  shows "let c = \<lparr>cat_id = next_oid st, cat_name = Some n, cat_slug = Some s\<rparr>;
             st1 = fst (serve (addCategory body) st) in
         snd (serve (showCategory (oid_hex (next_oid st))) st1) = responded 200 (JObj [(''category'', category_json c)])
         \<and> (\<exists>cs. serve getAllCategory st1 = (st1, responded 200 (JObj [(''category'', JArr (map category_json cs))]))
                 \<and> count (mset cs) c = 1)"
proof -
  define c where "c = \<lparr>cat_id = next_oid st, cat_name = Some n, cat_slug = Some s\<rparr>"
  from assms(5) have "find (\<lambda>c. cat_slug c = Some s) (cats st) = None" "\<not> (\<exists>c \<in> set (cats st). cat_slug c = Some s)"
    by (simp_all add: slug_absent_find)
  with assms(1-4) have st1: "fst (serve (addCategory body) st) = st\<lparr>cats := cats st @ [c], next_oid := Suc (next_oid st)\<rparr>"
    by (simp add: serve_addCategory save_category_def required_str_def Let_def c_def)
  have fresh: "next_oid st \<notin> cat_id ` set (cats st)"
    using assms(6) by (auto simp: store_wf_def)
  then have "find (\<lambda>d. cat_id d = next_oid st) (cats st) = None"
    by (force simp: find_None_iff)
  then have "find (\<lambda>d. cat_id d = next_oid st) (cats st @ [c]) = Some c"
    by (simp add: find_append_None c_def)
  moreover have "cast_oid (oid_hex (next_oid st)) = Inr (next_oid st)"
    using assms(7) by (simp add: cast_oid_def oid_hex_def parse_hex_digits)
  ultimately have sh: "snd (serve (showCategory (oid_hex (next_oid st))) (fst (serve (addCategory body) st))) =
      responded 200 (JObj [(''category'', category_json c)])"
    by (simp add: st1 serve_showCategory)
  have "c \<notin> set (cats st)"
    using fresh c_def by force
  then have "count (mset (sort_key cat_name (cats st @ [c]))) c = 1"
    by (simp add: count_mset_0_iff)
  then have "\<exists>cs. serve getAllCategory (fst (serve (addCategory body) st)) =
               (fst (serve (addCategory body) st), responded 200 (JObj [(''category'', JArr (map category_json cs))]))
             \<and> count (mset cs) c = 1"
    by (intro exI [where x = "sort_key cat_name (cats st @ [c])"]) (simp add: st1 serve_getAllCategory)
  with sh show ?thesis
    unfolding Let_def c_def by blast
qed

theorem add_then_show_and_list_witness:
  "let c = \<lparr>cat_id = next_oid (empty_store False), cat_name = Some ''Tech News'', cat_slug = Some ''tech-news''\<rparr>;
       st1 = fst (serve (addCategory (JObj [(''name'', JStr ''Tech News''), (''slug'', JStr ''tech-news'')])) (empty_store False)) in
   snd (serve (showCategory (oid_hex (next_oid (empty_store False)))) st1) =
     responded 200 (JObj [(''category'', category_json c)])
   \<and> (\<exists>cs. serve getAllCategory st1 = (st1, responded 200 (JObj [(''category'', JArr (map category_json cs))]))
           \<and> count (mset cs) c = 1)"
  by (rule add_then_show_and_list) (simp_all add: empty_store_def store_wf_def)

lemma category_items_json:
  "category_items (JArr (map category_json cs)) =
     Inr (if cs = [] then [''No categories found.'']
          else map (\<lambda>c. render_text (opt_json (cat_name c)) @ '' ('' @ render_text (opt_json (cat_slug c)) @ '')'') cs)"
proof -
  have "find (\<lambda>c. c = JUndef \<or> c = JNull) (map category_json cs) = None"
    by (auto simp: find_None_iff category_json_def)
  then show ?thesis
    by (cases cs) (simp_all add: category_items_def category_json_def)
qed

text \<open>C22: mounting the categories page lists the stored categories sorted by name, and
  renders "No categories found." for an empty collection and one "name (slug)" item per
  category otherwise; the store is unchanged.\<close>

theorem mount_lists_sorted:
  "mount_categories st p =
     (st, p\<lparr>categories := JArr (map category_json (sort_key cat_name (cats st)))\<rparr>)
   \<and> category_items (categories (snd (mount_categories st p))) =
     Inr (if cats st = [] then [''No categories found.'']
          else map (\<lambda>c. render_text (opt_json (cat_name c)) @ '' ('' @ render_text (opt_json (cat_slug c)) @ '')'')
                 (sort_key cat_name (cats st)))"
  by (simp add: mount_categories_def serve_http_all serve_getAllCategory fetch_of_def fetchCategories_list
      category_items_json sort_key_Nil_iff)

text \<open>C20: submitting a valid form whose slug no category has adds exactly that category
  to the store, empties the form, shows the server's success message and replaces the list
  with the sorted list that includes the new category.\<close>

theorem submit_category_created:
  assumes "categorySchema (pform p)" "Some (form_slug (pform p)) \<notin> cat_slug ` set (cats st)"
  shows "let c = \<lparr>cat_id = next_oid st, cat_name = Some (form_name (pform p)), cat_slug = Some (form_slug (pform p))\<rparr> in
     submit_category st p =
       (st\<lparr>cats := cats st @ [c], next_oid := Suc (next_oid st)\<rparr>,
        p\<lparr>pform := empty_form, categories := JArr (map category_json (sort_key cat_name (cats st @ [c]))),
          page_ui := showToast ToastSuccess (JStr ''Category added successfully.'') (page_ui p)\<rparr>)"
proof -
  have ne: "form_name (pform p) \<noteq> []" "form_slug (pform p) \<noteq> []"
    using categorySchema_nonempty [OF assms(1)] by simp_all
  from assms(2) have "find (\<lambda>c. cat_slug c = Some (form_slug (pform p))) (cats st) = None"
    and "\<not> (\<exists>c \<in> set (cats st). cat_slug c = Some (form_slug (pform p)))"
    by (simp_all add: slug_absent_find)
  with ne assms(1) show ?thesis
    by (simp add: submit_category_def serve_http_add serve_http_all serve_addCategory serve_getAllCategory
        category_body_def save_category_def required_str_def fetch_of_def res_ok_def
        AdminCategories_onSubmit_def get_prop_def fetchCategories_list toast_page_def Let_def)
qed

theorem submit_category_created_witness:
  "fst (submit_category (empty_store False) \<lparr>pform = \<lparr>form_name = ''Tech News'', form_slug = ''tech-news''\<rparr>, categories = JArr [],
           page_ui = \<lparr>sess = logged_out, toasts = [], location = ''/admin/categories''\<rparr>\<rparr>) =
     \<lparr>cats = [\<lparr>cat_id = 1, cat_name = Some ''Tech News'', cat_slug = Some ''tech-news''\<rparr>], next_oid = 2, slug_index = False\<rparr>
   \<and> pform (snd (submit_category (empty_store False) \<lparr>pform = \<lparr>form_name = ''Tech News'', form_slug = ''tech-news''\<rparr>, categories = JArr [],
           page_ui = \<lparr>sess = logged_out, toasts = [], location = ''/admin/categories''\<rparr>\<rparr>)) = empty_form"
  using submit_category_created [of "\<lparr>pform = \<lparr>form_name = ''Tech News'', form_slug = ''tech-news''\<rparr>, categories = JArr [],
           page_ui = \<lparr>sess = logged_out, toasts = [], location = ''/admin/categories''\<rparr>\<rparr>" "empty_store False"]
  by (simp add: categorySchema_def zod_min_def empty_store_def Let_def)

text \<open>C21: submitting a valid form whose slug a stored category already has leaves the
  store and the form as they are and only shows the error toast
  "Category slug already exists.".\<close>

theorem submit_category_duplicate:
  assumes "categorySchema (pform p)" "Some (form_slug (pform p)) \<in> cat_slug ` set (cats st)"
  shows "submit_category st p =
     (st, p\<lparr>page_ui := showToast ToastError (JStr ''Category slug already exists.'') (page_ui p)\<rparr>)"
proof -
  have ne: "form_name (pform p) \<noteq> []" "form_slug (pform p) \<noteq> []"
    using categorySchema_nonempty [OF assms(1)] by simp_all
  have "find (\<lambda>c. cat_slug c = Some (form_slug (pform p))) (cats st) \<noteq> None"
    using assms(2) by (auto simp: find_None_iff)
  with ne assms(1) show ?thesis
    by (simp add: submit_category_def serve_http_add serve_addCategory category_body_def fetch_of_def res_ok_def
        AdminCategories_onSubmit_def get_prop_def msg_json_def toast_page_def)
qed

theorem submit_category_duplicate_witness:
  "submit_category \<lparr>cats = [\<lparr>cat_id = 1, cat_name = Some ''Tech'', cat_slug = Some ''tech-news''\<rparr>], next_oid = 2, slug_index = False\<rparr> \<lparr>pform = \<lparr>form_name = ''Tech News'', form_slug = ''tech-news''\<rparr>, categories = JArr [],
           page_ui = \<lparr>sess = logged_out, toasts = [], location = ''/admin/categories''\<rparr>\<rparr> =
   (\<lparr>cats = [\<lparr>cat_id = 1, cat_name = Some ''Tech'', cat_slug = Some ''tech-news''\<rparr>], next_oid = 2, slug_index = False\<rparr>,
    \<lparr>pform = \<lparr>form_name = ''Tech News'', form_slug = ''tech-news''\<rparr>, categories = JArr [],
           page_ui = \<lparr>sess = logged_out, toasts = [], location = ''/admin/categories''\<rparr>\<rparr>\<lparr>page_ui := \<lparr>sess = logged_out, toasts = [(ToastError, JStr ''Category slug already exists.'')], location = ''/admin/categories''\<rparr>\<rparr>)"
  using submit_category_duplicate [of "\<lparr>pform = \<lparr>form_name = ''Tech News'', form_slug = ''tech-news''\<rparr>, categories = JArr [],
           page_ui = \<lparr>sess = logged_out, toasts = [], location = ''/admin/categories''\<rparr>\<rparr>" "\<lparr>cats = [\<lparr>cat_id = 1, cat_name = Some ''Tech'', cat_slug = Some ''tech-news''\<rparr>], next_oid = 2, slug_index = False\<rparr>"]
  by (simp add: categorySchema_def zod_min_def showToast_def)

text \<open>C23: after logging in from a logged-out session, the categories page shows its
  content (does not redirect, and calls all five hooks) exactly when the login values pass
  the schema and the server returned an admin user; otherwise it redirects to /.\<close>

theorem login_opens_categories:
  "AdminCategories_redirects (sess (login_submit server v \<lparr>sess = logged_out, toasts = ts, location = l\<rparr>)) =
     Inr (\<not> loginSchema v \<or> admin_user (server (login_body v)) = None)
   \<and> AdminCategories_hooks (sess (login_submit server v \<lparr>sess = logged_out, toasts = ts, location = l\<rparr>)) =
     (if loginSchema v \<and> admin_user (server (login_body v)) \<noteq> None
      then [UseSelector, UseState, UseForm, UseEffect, UseEffect] else [UseSelector, UseState])"
  by (auto simp: login_submit_def onSubmit_sess_location admin_user_def AdminCategories_hooks_def
      AdminCategories_redirects_def get_prop_cases setUser_def logged_out_def
      split: option.splits fetch_result.splits if_splits)


theorem login_opens_categories_witness:
  "AdminCategories_redirects (sess (login_submit (\<lambda>_. Reply 200 (JObj [(''user'', JObj [(''role'', JStr ''admin'')])]))
      \<lparr>email = ''admin@digisoch.com'', password = ''secret''\<rparr> \<lparr>sess = logged_out, toasts = [], location = ''/login''\<rparr>)) = Inr False"
  using login_opens_categories [of "\<lambda>_. Reply 200 (JObj [(''user'', JObj [(''role'', JStr ''admin'')])])"
      "\<lparr>email = ''admin@digisoch.com'', password = ''secret''\<rparr>" "[]" "''/login''"]
  by (simp add: loginSchema_def zod_email_def zod_min_def email_label_def is_alnum_def is_letter_def is_digit_def
      admin_user_def res_ok_def)

text \<open>C32: submitting a categories form that fails the schema sends nothing and changes
  neither the store nor the page; the admin page then shows "Name must be at least 3
  characters long" and "Slug must be at least 3 characters long" under the fields that
  are too short, and the list as before.\<close>

theorem invalid_category_submit_view:
  assumes "\<not> categorySchema (pform p)" "AdminCategories_redirects s = Inr False"
    and "category_items (categories p) = Inr items"
  shows "category_handleSubmit st p = (category_errors (pform p), st, p)
    \<and> AdminCategories_view s p (category_errors (pform p)) =
        Inr [Heading ''Manage Categories'',
             Field ''Name'' ''text'' ''Category name'' (form_name (pform p))
               (if zod_min 3 (form_name (pform p)) then None else Some ''Name must be at least 3 characters long''),
             Field ''Slug'' ''text'' ''Slug'' (form_slug (pform p))
               (if zod_min 3 (form_slug (pform p)) then None else Some ''Slug must be at least 3 characters long''),
             Submit ''Add Category'', Heading ''Existing Categories'', Items items]"
proof -
  from assms(1) have "category_errors (pform p) \<noteq> []"
    by (simp add: category_errors_Nil)
  then have "category_handleSubmit st p = (category_errors (pform p), st, p)"
    by (simp add: category_handleSubmit_def Let_def)
  moreover have "AdminCategories_view s p (category_errors (pform p)) =
        Inr [Heading ''Manage Categories'',
             Field ''Name'' ''text'' ''Category name'' (form_name (pform p))
               (if zod_min 3 (form_name (pform p)) then None else Some ''Name must be at least 3 characters long''),
             Field ''Slug'' ''text'' ''Slug'' (form_slug (pform p))
               (if zod_min 3 (form_slug (pform p)) then None else Some ''Slug must be at least 3 characters long''),
             Submit ''Add Category'', Heading ''Existing Categories'', Items items]"
    using assms(2,3) by (simp add: AdminCategories_view_def category_errors_def)
  ultimately show ?thesis by blast
qed

theorem invalid_category_submit_view_witness:
  "category_handleSubmit (empty_store False) \<lparr>pform = \<lparr>form_name = ''ab'', form_slug = ''ab''\<rparr>, categories = JArr [], page_ui = \<lparr>sess = logged_out, toasts = [], location = ''/admin/categories''\<rparr>\<rparr> = ([(''name'', ''Name must be at least 3 characters long''),
      (''slug'', ''Slug must be at least 3 characters long'')], empty_store False, \<lparr>pform = \<lparr>form_name = ''ab'', form_slug = ''ab''\<rparr>, categories = JArr [], page_ui = \<lparr>sess = logged_out, toasts = [], location = ''/admin/categories''\<rparr>\<rparr>)
   \<and> AdminCategories_view \<lparr>isLoggedIn = True, user = JObj [(''role'', JStr ''admin'')]\<rparr> \<lparr>pform = \<lparr>form_name = ''ab'', form_slug = ''ab''\<rparr>, categories = JArr [], page_ui = \<lparr>sess = logged_out, toasts = [], location = ''/admin/categories''\<rparr>\<rparr> [(''name'', ''Name must be at least 3 characters long''),
      (''slug'', ''Slug must be at least 3 characters long'')] =
     Inr [Heading ''Manage Categories'',
          Field ''Name'' ''text'' ''Category name'' ''ab'' (Some ''Name must be at least 3 characters long''),
          Field ''Slug'' ''text'' ''Slug'' ''ab'' (Some ''Slug must be at least 3 characters long''),
          Submit ''Add Category'', Heading ''Existing Categories'', Items [''No categories found.'']]"
  using invalid_category_submit_view [of "\<lparr>pform = \<lparr>form_name = ''ab'', form_slug = ''ab''\<rparr>, categories = JArr [], page_ui = \<lparr>sess = logged_out, toasts = [], location = ''/admin/categories''\<rparr>\<rparr>" "\<lparr>isLoggedIn = True, user = JObj [(''role'', JStr ''admin'')]\<rparr>" "[''No categories found.'']" "empty_store False"]
  by (simp add: categorySchema_def zod_min_def AdminCategories_redirects_def get_prop_def category_items_def
      category_errors_def)

text \<open>C19: the list the page shows depends on the order in which replies arrive. The
  GET sent on mount and the add and refresh of a submit are answered by the server in
  that order; delivered in that order, the page lists the new category, but when the
  mount reply arrives last (nothing cancels it) it overwrites the list with the one from
  before the add, although the store holds the new category.\<close>

theorem stale_list_overwrites:
  assumes "categorySchema (pform p)" "Some (form_slug (pform p)) \<notin> cat_slug ` set (cats st)" "store_wf st"
  shows "let (st1, r0) = serve_http st GET ''/category/all-category'' JNull;
             (st2, r1) = serve_http st1 POST ''/category/add'' (category_body (pform p));
             (st3, r2) = serve_http st2 GET ''/category/all-category'' JNull;
             c = \<lparr>cat_id = next_oid st, cat_name = Some (form_name (pform p)), cat_slug = Some (form_slug (pform p))\<rparr>
         in cats st3 = cats st @ [c] \<and> c \<notin> set (cats st)
          \<and> categories (AdminCategories_onSubmit (fetch_of r1) (fetch_of r2) (fetchCategories (fetch_of r0) p)) =
              JArr (map category_json (sort_key cat_name (cats st @ [c])))
          \<and> categories (fetchCategories (fetch_of r0) (AdminCategories_onSubmit (fetch_of r1) (fetch_of r2) p)) =
              JArr (map category_json (sort_key cat_name (cats st)))"
proof -
  have ne: "form_name (pform p) \<noteq> []" "form_slug (pform p) \<noteq> []"
    using categorySchema_nonempty [OF assms(1)] by simp_all
  from assms(2) have "find (\<lambda>c. cat_slug c = Some (form_slug (pform p))) (cats st) = None"
    and "\<not> (\<exists>c \<in> set (cats st). cat_slug c = Some (form_slug (pform p)))"
    by (simp_all add: slug_absent_find)
  moreover have "\<lparr>cat_id = next_oid st, cat_name = Some (form_name (pform p)), cat_slug = Some (form_slug (pform p))\<rparr>
      \<notin> set (cats st)"
    using assms(3) by (auto simp: store_wf_def)
  ultimately show ?thesis
    using ne by (simp add: serve_http_add serve_http_all serve_addCategory serve_getAllCategory
        category_body_def save_category_def required_str_def fetch_of_def res_ok_def
        AdminCategories_onSubmit_def get_prop_def fetchCategories_list toast_page_def Let_def)
qed

theorem stale_list_overwrites_witness:
  "let p = \<lparr>pform = \<lparr>form_name = ''Tech News'', form_slug = ''tech-news''\<rparr>, categories = JArr [],
             page_ui = \<lparr>sess = logged_out, toasts = [], location = ''/admin/categories''\<rparr>\<rparr>;
       (st1, r0) = serve_http (empty_store False) GET ''/category/all-category'' JNull;
       (st2, r1) = serve_http st1 POST ''/category/add'' (category_body (pform p));
       (st3, r2) = serve_http st2 GET ''/category/all-category'' JNull
   in length (cats st3) = 1
      \<and> categories (fetchCategories (fetch_of r0) (AdminCategories_onSubmit (fetch_of r1) (fetch_of r2) p)) = JArr []"
  using stale_list_overwrites [of "\<lparr>pform = \<lparr>form_name = ''Tech News'', form_slug = ''tech-news''\<rparr>, categories = JArr [],
             page_ui = \<lparr>sess = logged_out, toasts = [], location = ''/admin/categories''\<rparr>\<rparr>" "empty_store False"]
  by (simp add: categorySchema_def zod_min_def empty_store_def store_wf_def serve_http_add serve_http_all
      serve_addCategory serve_getAllCategory category_body_def save_category_def required_str_def Let_def)

end
